theory Spec2Isabelle
  imports Main "HOL-Library.Sublist"
begin

text \<open>
  A model of \<open>entrypoint_github_actions_audit.py\<close>: the configuration loader, the
  process runner, the gate evaluator, the diagnostics uploader and the audit driver, each
  as a function of the same name. The binary locator and \<open>main\<close> only pick a path and
  set up logging and are left out.
\<close>

section \<open>Python string primitives used by the entrypoint\<close>

text \<open>
  The entrypoint script works on Python \<open>str\<close> values. They are modelled as HOL strings
  whose characters are the code points below 256; text with a code point beyond that is
  outside the model. On this range the case mapping and the whitespace class below are
  Python's: \<open>str.lower\<close> moves \<open>A\<close> to \<open>Z\<close> and the accented capitals \<open>U+00C0\<close> to
  \<open>U+00DE\<close> (the multiplication sign \<open>U+00D7\<close> apart) up by 32 and leaves every other
  character alone.
\<close>

definition lower_char :: "char \<Rightarrow> char" where
  "lower_char c =
     (if (65 \<le> (of_char c :: nat) \<and> (of_char c :: nat) \<le> 90) \<or>
         (192 \<le> (of_char c :: nat) \<and> (of_char c :: nat) \<le> 222 \<and> (of_char c :: nat) \<noteq> 215)
      then char_of (of_char c + 32 :: nat) else c)"

definition lower :: "string \<Rightarrow> string" where
  "lower s = map lower_char s"

text \<open>
  \<open>str.isspace\<close> on one character, which is also what \<open>str.strip\<close> removes: TAB, LF,
  VT, FF, CR, FS, GS, RS, US, the space, NEL (\<open>U+0085\<close>) and the no-break space
  (\<open>U+00A0\<close>).
\<close>

definition isspace :: "char \<Rightarrow> bool" where
  "isspace c =
     ((9 \<le> (of_char c :: nat) \<and> (of_char c :: nat) \<le> 13) \<or>
      (28 \<le> (of_char c :: nat) \<and> (of_char c :: nat) \<le> 32) \<or>
      (of_char c :: nat) = 133 \<or> (of_char c :: nat) = 160)"

definition strip :: "string \<Rightarrow> string" where
  "strip s = rev (dropWhile isspace (rev (dropWhile isspace s)))"

definition nl :: string where
  "nl = [CHR 0x0A]"

text \<open>
  \<open>s.split(sep)\<close> for a one-character separator: the pieces between the separators,
  empty pieces kept, so the result always has at least one element.
\<close>

fun split_on :: "char \<Rightarrow> string \<Rightarrow> string list" where
  "split_on sep [] = [[]]"
| "split_on sep (c # cs) =
     (if c = sep then [] # split_on sep cs
      else (case split_on sep cs of [] \<Rightarrow> [[c]] | w # ws \<Rightarrow> (c # w) # ws))"

text \<open>
  \<open>s.replace(old, new)\<close>: one pass from the left, every non-overlapping occurrence of
  \<open>old\<close> replaced. With an empty \<open>old\<close> Python puts \<open>new\<close> around every character.
\<close>

function subst_all :: "string \<Rightarrow> string \<Rightarrow> string \<Rightarrow> string" where
  "subst_all old new [] = []"
| "subst_all old new (c # cs) =
     (if old \<noteq> [] \<and> prefix old (c # cs)
      then new @ subst_all old new (drop (length old) (c # cs))
      else c # subst_all old new cs)"
  by pat_completeness auto
termination
  by (relation "measure (\<lambda>(old, new, s). length s)") auto

definition replace :: "string \<Rightarrow> string \<Rightarrow> string \<Rightarrow> string" where
  "replace s old new =
     (if old = [] then new @ concat (map (\<lambda>c. c # new) s) else subst_all old new s)"

text \<open>\<open>sep.join(parts)\<close>.\<close>

fun join :: "string \<Rightarrow> string list \<Rightarrow> string" where
  "join sep [] = []"
| "join sep [x] = x"
| "join sep (x # y # ys) = x @ sep @ join sep (y # ys)"

text \<open>\<open>str(n)\<close> for an integer: decimal digits, a minus sign for negative numbers.\<close>

fun str_nat :: "nat \<Rightarrow> string" where
  "str_nat n =
     (if n < 10 then [char_of (48 + n)] else str_nat (n div 10) @ [char_of (48 + n mod 10)])"

declare str_nat.simps [simp del]

definition str_int :: "int \<Rightarrow> string" where
  "str_int i = (if i < 0 then CHR ''-'' # str_nat (nat (- i)) else str_nat (nat i))"

text \<open>Truth value of an optional string: \<open>None\<close> and the empty string are false.\<close>

definition truthy :: "string option \<Rightarrow> bool" where
  "truthy v = (case v of None \<Rightarrow> False | Some s \<Rightarrow> s \<noteq> [])"

subsection \<open>Path functions (\<open>posixpath\<close>)\<close>

definition path_join :: "string \<Rightarrow> string \<Rightarrow> string" where
  "path_join a b =
     (if prefix ''/'' b then b
      else if a = [] \<or> suffix ''/'' a then a @ b
      else a @ ''/'' @ b)"

definition basename :: "string \<Rightarrow> string" where
  "basename p = rev (takeWhile (\<lambda>c. c \<noteq> CHR ''/'') (rev p))"

text \<open>\<open>p.rfind(c)\<close>: the index of the last occurrence, \<open>-1\<close> when there is none.\<close>

definition rfind :: "string \<Rightarrow> char \<Rightarrow> int" where
  "rfind p c =
     (if c \<in> set p then int (length p) - 1 - int (length (takeWhile (\<lambda>d. d \<noteq> c) (rev p)))
      else - 1)"

text \<open>
  \<open>splitext\<close>: the extension starts at the last dot of the last path component, unless
  only dots precede it there.
\<close>

definition splitext :: "string \<Rightarrow> string \<times> string" where
  "splitext p =
     (let sepIndex = rfind p CHR ''/'';
          dotIndex = rfind p CHR ''.''
      in if dotIndex > sepIndex \<and>
            list_ex (\<lambda>c. c \<noteq> CHR ''.'')
              (take (nat (dotIndex - (sepIndex + 1))) (drop (nat (sepIndex + 1)) p))
         then (take (nat dotIndex) p, drop (nat dotIndex) p)
         else (p, []))"

section \<open>The running configuration\<close>

record RunningConfiguration =
  enforce :: bool
  log_level :: string
  data_enrich :: bool
  upload_to_code_scanning :: bool
  sarif_report :: "string option"
  export_as_pdf :: "string option"
  github_token :: "string option"
  github_repository :: "string option"
  github_organization :: "string option"
  github_repository_owner :: "string option"
  github_ref :: "string option"
  github_sha :: "string option"

text \<open>\<open>__post_init__\<close>: a non-empty log level is lower-cased.\<close>

definition post_init :: "RunningConfiguration \<Rightarrow> RunningConfiguration" where
  "post_init c = (if log_level c \<noteq> [] then c\<lparr>log_level := lower (log_level c)\<rparr> else c)"

text \<open>The process environment is a dictionary from variable names to values.\<close>

type_synonym environ = "string \<rightharpoonup> string"

definition getenv :: "environ \<Rightarrow> string \<Rightarrow> string option \<Rightarrow> string option" where
  "getenv env name dflt = (case env name of None \<Rightarrow> dflt | Some v \<Rightarrow> Some v)"

definition to_bool :: "string option \<Rightarrow> bool" where
  "to_bool v =
     (case v of
        None \<Rightarrow> False
      | Some s \<Rightarrow> if lower s = ''true'' then True else False)"

text \<open>
  The specification's wording of a true boolean input, to compare \<open>to_bool\<close> with: the
  four letters of \<open>true\<close>, each in either case.
\<close>

definition spelled_true :: "string \<Rightarrow> bool" where
  "spelled_true v =
     (\<exists>a \<in> {CHR ''t'', CHR ''T''}. \<exists>b \<in> {CHR ''r'', CHR ''R''}.
      \<exists>c \<in> {CHR ''u'', CHR ''U''}. \<exists>d \<in> {CHR ''e'', CHR ''E''}. v = [a, b, c, d])"

definition none_or_empty :: "string option \<Rightarrow> string option" where
  "none_or_empty v =
     (case v of
        None \<Rightarrow> None
      | Some s \<Rightarrow> if strip s = [] then None else Some s)"

definition resolve_log_level :: "string option \<Rightarrow> string" where
  "resolve_log_level v =
     (case v of
        None \<Rightarrow> ''info''
      | Some s \<Rightarrow>
          if lower s \<notin> set [''fail'', ''error'', ''warn'', ''info'', ''debug'']
          then ''info'' else lower s)"

definition get_running_configuration :: "environ \<Rightarrow> RunningConfiguration" where
  "get_running_configuration env =
     (let enforce_v = to_bool (getenv env ''INPUT_ENFORCE-SQG'' (Some ''false''));
          data_enrich_v = to_bool (getenv env ''INPUT_DATA-ENRICH'' (Some ''false''));
          upload_v = to_bool (getenv env ''INPUT_UPLOAD-TO-CODE-SCANNING'' (Some ''false''));
          level = resolve_log_level (getenv env ''INPUT_LOG-LEVEL'' (Some ''info''))
      in post_init
           \<lparr> enforce = enforce_v,
             log_level = lower level,
             data_enrich = data_enrich_v,
             upload_to_code_scanning = upload_v,
             sarif_report = none_or_empty (getenv env ''INPUT_SARIF-REPORT'' None),
             export_as_pdf = none_or_empty (getenv env ''INPUT_EXPORT-AS-PDF'' None),
             github_token = getenv env ''INPUT_TOKEN'' None,
             github_repository = getenv env ''GITHUB_REPOSITORY'' None,
             github_organization = getenv env ''GITHUB_REPOSITORY_OWNER'' None,
             github_repository_owner = getenv env ''GITHUB_REPOSITORY_OWNER'' None,
             github_ref = getenv env ''GITHUB_REF'' None,
             github_sha = getenv env ''GITHUB_SHA'' None \<rparr>)"

section \<open>Failures\<close>

text \<open>
  Every way a function of the script can end without returning: a Python exception that
  nobody catches, or \<open>exit(n)\<close> (\<open>SystemExit\<close>, which no handler of the script catches).
\<close>

datatype exn =
    KeyError
  | IndexError
  | TypeError
  | AttributeError
  | FileNotFoundError
  | PermissionError
  | UnicodeDecodeError
  | JSONDecodeError
  | ExecutionError string

datatype failure = Raised exn | Exit int

section \<open>Parsed JSON documents\<close>

text \<open>
  The value \<open>json.load\<close> returns. A dictionary is the association list of its items; a
  key is looked up with \<open>map_of\<close>. Integers and floats behave alike in everything the
  script does with a document, so one constructor stands for both.
\<close>

datatype json =
    JNull
  | JBool bool
  | JNumber int
  | JString string
  | JArray "json list"
  | JObject "(string \<times> json) list"

text \<open>\<open>v[key]\<close> with a string key.\<close>

definition getitem_key :: "json \<Rightarrow> string \<Rightarrow> exn + json" where
  "getitem_key v k =
     (case v of
        JObject items \<Rightarrow> (case map_of items k of None \<Rightarrow> Inl KeyError | Some x \<Rightarrow> Inr x)
      | _ \<Rightarrow> Inl TypeError)"

text \<open>
  \<open>v[0]\<close>. A dictionary read from JSON has string keys only, so the integer key is
  missing from it; a string yields its first character.
\<close>

definition getitem_first :: "json \<Rightarrow> exn + json" where
  "getitem_first v =
     (case v of
        JArray xs \<Rightarrow> (case xs of [] \<Rightarrow> Inl IndexError | x # _ \<Rightarrow> Inr x)
      | JString s \<Rightarrow> (case s of [] \<Rightarrow> Inl IndexError | c # _ \<Rightarrow> Inr (JString [c]))
      | JObject items \<Rightarrow> Inl KeyError
      | _ \<Rightarrow> Inl TypeError)"

text \<open>\<open>len(v)\<close>.\<close>

definition len :: "json \<Rightarrow> exn + int" where
  "len v =
     (case v of
        JArray xs \<Rightarrow> Inr (int (length xs))
      | JString s \<Rightarrow> Inr (int (length s))
      | JObject items \<Rightarrow> Inr (int (length (remdups (map fst items))))
      | _ \<Rightarrow> Inl TypeError)"

text \<open>\<open>len(data["runs"][0]["results"])\<close>, evaluated left to right.\<close>

definition results_len :: "json \<Rightarrow> exn + int" where
  "results_len data =
     (case getitem_key data ''runs'' of
        Inl e \<Rightarrow> Inl e
      | Inr runs \<Rightarrow>
          (case getitem_first runs of
             Inl e \<Rightarrow> Inl e
           | Inr run \<Rightarrow>
               (case getitem_key run ''results'' of
                  Inl e \<Rightarrow> Inl e
                | Inr results \<Rightarrow> len results)))"

text \<open>The body of \<open>is_security_issues_found\<close> once the document is parsed.\<close>

definition issues_in_document :: "json \<Rightarrow> failure + bool \<times> int" where
  "issues_in_document data =
     (case results_len data of
        Inr issues_found \<Rightarrow> if issues_found > 0 then Inr (True, issues_found) else Inr (False, - 1)
      | Inl e \<Rightarrow> if e = KeyError \<or> e = IndexError then Inr (False, - 1) else Inl (Raised e))"

section \<open>The operating system and the libraries\<close>

text \<open>
  What the script gets from outside: the result of a subprocess, the files on disk, the
  answer of the code-scanning service. The outside world is a state of type \<open>'w\<close>;
  running a subprocess or sending a request changes it, reading does not.

  A byte string is a list of bytes. \<open>bytes.decode()\<close> turns it into text and raises
  \<open>UnicodeDecodeError\<close> when the bytes are not UTF-8; here it is the function \<open>decode\<close>
  of the system, with \<open>None\<close> for the error. \<open>subprocess.run\<close> captures the output of
  the process as bytes; when the program cannot be started it raises
  \<open>FileNotFoundError\<close> or \<open>PermissionError\<close> instead of returning.
\<close>

type_synonym bytes = string

record completed =
  returncode :: int
  stdout :: bytes
  stderr :: bytes

datatype oserror = ENOENT | EACCES

definition oserror_exn :: "oserror \<Rightarrow> exn" where
  "oserror_exn e = (case e of ENOENT \<Rightarrow> FileNotFoundError | EACCES \<Rightarrow> PermissionError)"

record request =
  url :: string
  headers :: "(string \<times> string) list"
  commit_sha :: "string option"
  ref :: "string option"
  sarif :: string
  tool_name :: string
  checkout_uri :: string

text \<open>
  What \<open>urlopen\<close> and reading the answer give: the body of the answer, an \<open>HTTPError\<close>
  with its code, its reason and its body, or any other exception.
\<close>

datatype response =
    Success bytes
  | HTTPError int string bytes
  | OtherError string

record 'w sys =
  subprocess_run :: "string list \<Rightarrow> 'w \<Rightarrow> (oserror + completed) \<times> 'w"
  decode :: "bytes \<Rightarrow> string option"
  open_read :: "string \<Rightarrow> 'w \<Rightarrow> string option"
  listdir :: "string \<Rightarrow> 'w \<Rightarrow> string list option"
  urlopen :: "request \<Rightarrow> 'w \<Rightarrow> response \<times> 'w"
  json_load :: "string \<Rightarrow> json option"
  gzip_b64 :: "string \<Rightarrow> string"
  getcwd :: string
  abspath :: "string \<Rightarrow> string"
  uuid4_hex :: string

text \<open>
  The run keeps a trace of what it did to the outside: the subprocesses it ran (with the
  result each gave), the requests it sent, and the banners it logged. Other log lines and
  prints change nothing and are left out.
\<close>

datatype event =
    Spawn "string list" completed
  | HttpPost request
  | Banner string

record 'w state =
  events :: "event list"
  world :: 'w

definition emit :: "event \<Rightarrow> 'w state \<Rightarrow> 'w state" where
  "emit e st = st\<lparr>events := events st @ [e]\<rparr>"

definition display_header :: "string \<Rightarrow> string \<Rightarrow> string" where
  "display_header title text =
     nl @ replicate 80 CHR ''!'' @ nl @
     ''! '' @ title @ nl @
     ''!'' @ nl @
     ''! '' @ text @ nl @
     replicate 80 CHR ''!'' @ nl"

section \<open>The gate evaluator\<close>

definition is_security_issues_found :: "'w sys \<Rightarrow> string \<Rightarrow> 'w \<Rightarrow> failure + bool \<times> int" where
  "is_security_issues_found sys sarif_path w =
     (case open_read sys sarif_path w of
        None \<Rightarrow> Inl (Raised FileNotFoundError)
      | Some content \<Rightarrow>
          (case json_load sys content of
             None \<Rightarrow> Inl (Raised JSONDecodeError)
           | Some data \<Rightarrow> issues_in_document data))"

section \<open>The process runner\<close>

text \<open>
  A command is a string, split at single spaces, or a list of arguments. An argument that
  is \<open>None\<close> makes \<open>subprocess.run\<close> raise \<open>TypeError\<close> before any process starts.
\<close>

datatype command = CmdStr string | CmdList "string option list"

text \<open>
  The message of the failure: the line with the exit code, then each captured stream that
  is not empty, decoded. \<open>None\<close> when a stream to be shown does not decode; standard
  output is decoded first.
\<close>

definition failure_message :: "'w sys \<Rightarrow> completed \<Rightarrow> string option" where
  "failure_message sys result =
     (case (if stdout result \<noteq> []
            then map_option (\<lambda>text. [''stdout: '' @ text]) (decode sys (stdout result))
            else Some []) of
        None \<Rightarrow> None
      | Some out_lines \<Rightarrow>
          (case (if stderr result \<noteq> []
                 then map_option (\<lambda>text. [''stderr: '' @ text]) (decode sys (stderr result))
                 else Some []) of
             None \<Rightarrow> None
           | Some err_lines \<Rightarrow>
               Some (join nl
                 ([''Command failed with exit code '' @ str_int (returncode result)] @
                  out_lines @ err_lines))))"

definition command_args :: "command \<Rightarrow> string option list" where
  "command_args command =
     (case command of
        CmdStr s \<Rightarrow> map Some (split_on CHR '' '' s)
      | CmdList xs \<Rightarrow> xs)"

definition execute ::
  "'w sys \<Rightarrow> command \<Rightarrow> bool \<Rightarrow> 'w state \<Rightarrow> (failure + (string \<times> string) option) \<times> 'w state"
where
  "execute sys command capture_output st =
     (let cmd = command_args command
      in case those cmd of
           None \<Rightarrow> (Inl (Raised TypeError), st)
         | Some argv \<Rightarrow>
             (case subprocess_run sys argv (world st) of
                (Inl e, w') \<Rightarrow> (Inl (Raised (oserror_exn e)), \<lparr>events = events st, world = w'\<rparr>)
              | (Inr result, w') \<Rightarrow>
                  let st' = \<lparr>events = events st @ [Spawn argv result], world = w'\<rparr>
                  in if returncode result \<noteq> 0 then
                       (case failure_message sys result of
                          None \<Rightarrow> (Inl (Raised UnicodeDecodeError), st')
                        | Some message \<Rightarrow> (Inl (Raised (ExecutionError message)), st'))
                     else if capture_output then
                       (case decode sys (stdout result) of
                          None \<Rightarrow> (Inl (Raised UnicodeDecodeError), st')
                        | Some out \<Rightarrow>
                            (case decode sys (stderr result) of
                               None \<Rightarrow> (Inl (Raised UnicodeDecodeError), st')
                             | Some err \<Rightarrow> (Inr (Some (out, err)), st')))
                     else (Inr None, st')))"

section \<open>The diagnostics uploader\<close>

text \<open>An optional value inside an f-string: \<open>None\<close> prints as its name.\<close>

definition fmt :: "string option \<Rightarrow> string" where
  "fmt v = (case v of None \<Rightarrow> ''None'' | Some s \<Rightarrow> s)"

text \<open>
  The last handler of \<open>upload_sarif\<close> calls \<open>display_header\<close> with one argument only, so
  an error that is not an \<open>HTTPError\<close> ends in a \<open>TypeError\<close> raised from the handler;
  a body of the answer that does not decode is such an error. The body of an \<open>HTTPError\<close>
  is decoded inside its handler, where nothing catches the \<open>UnicodeDecodeError\<close>.
\<close>

definition upload_sarif ::
  "'w sys \<Rightarrow> string option \<Rightarrow> string option \<Rightarrow> string option \<Rightarrow> string option \<Rightarrow> string
     \<Rightarrow> 'w state \<Rightarrow> (failure + unit) \<times> 'w state"
where
  "upload_sarif sys token repository sha git_ref sarif_file_path st =
     (if \<not> truthy token then
        (Inl (Exit 1),
         emit (Banner (display_header ''GitHub token not found''
                 ''Unable to upload SARIF file to GitHub code scanning'')) st)
      else
        (case open_read sys sarif_file_path (world st) of
          None \<Rightarrow>
            (Inl (Exit 1),
             emit (Banner (display_header ''SARIF file not found''
                     (''Unable to upload SARIF file to GitHub code scanning: '' @
                      abspath sys sarif_file_path @ '' not found''))) st)
        | Some content \<Rightarrow>
            (case repository of
               None \<Rightarrow> (Inl (Raised TypeError), st)
             | Some repo \<Rightarrow>
                 if CHR ''/'' \<notin> set repo then
                   (Inl (Exit 1),
                    emit (Banner (display_header ''Invalid repository''
                            (''Unable to upload SARIF file to GitHub code scanning: '' @
                             [CHR 0x27] @ repo @ [CHR 0x27] @ '' is not a valid repository''))) st)
                 else
                   let req =
                         \<lparr> url = ''https://api.github.com/repos/'' @ repo @ ''/code-scanning/sarifs'',
                           headers =
                             [(''Authorization'', ''Bearer '' @ fmt token),
                              (''Accept'', ''application/vnd.github+json''),
                              (''X-GitHub-Api-Version'', ''2022-11-28'')],
                           commit_sha = sha,
                           ref = git_ref,
                           sarif = gzip_b64 sys content,
                           tool_name = ''42Crunch REST API Static Security Testing'',
                           checkout_uri = ''file://'' @ getcwd sys \<rparr>
                   in case urlopen sys req (world st) of
                        (resp, w') \<Rightarrow>
                          let st' = \<lparr>events = events st @ [HttpPost req], world = w'\<rparr>
                          in (case resp of
                                Success body \<Rightarrow>
                                  (case decode sys body of
                                     None \<Rightarrow> (Inl (Raised TypeError), st')
                                   | Some text \<Rightarrow> (Inr (), st'))
                              | HTTPError code reason body \<Rightarrow>
                                  (case decode sys body of
                                     None \<Rightarrow> (Inl (Raised UnicodeDecodeError), st')
                                   | Some text \<Rightarrow>
                                       (Inl (Exit 1),
                                        emit (Banner (display_header
                                                (''Unable to upload SARIF file to GitHub code scanning: '' @
                                                 str_int code @ ''. '' @ reason) text)) st'))
                              | OtherError msg \<Rightarrow> (Inl (Raised TypeError), st')))))"

section \<open>The audit driver\<close>

definition report_path :: "string \<Rightarrow> string \<Rightarrow> string" where
  "report_path output_directory report = path_join output_directory report"

definition openapi_file :: "string \<Rightarrow> string" where
  "openapi_file report = replace report ''.audit-report.json'' []"

definition sarif_file :: "string \<Rightarrow> string \<Rightarrow> string" where
  "sarif_file output_directory report =
     fst (splitext (basename (report_path output_directory report))) @ ''.sarif''"

definition convert_cmd :: "string \<Rightarrow> string \<Rightarrow> string list" where
  "convert_cmd output_directory report =
     [''42ctl'', ''audit'', ''report'', ''sarif'', ''convert'',
      ''-r'', report_path output_directory report,
      ''-a'', openapi_file report,
      ''-o'', sarif_file output_directory report]"

text \<open>
  One turn of the loop over the report files. \<open>Inr\<close> carries the list of diagnostics
  files on to the next turn (also after \<open>continue\<close>); \<open>Inl\<close> ends the run.
\<close>

definition process_report ::
  "'w sys \<Rightarrow> RunningConfiguration \<Rightarrow> string \<Rightarrow> string \<Rightarrow> string list \<Rightarrow> 'w state
     \<Rightarrow> (failure + string list) \<times> 'w state"
where
  "process_report sys running_config output_directory report sarif_reports st =
     (if \<not> sublist ''audit-report'' report then (Inr sarif_reports, st)
      else
        (case execute sys (CmdList (map Some (convert_cmd output_directory report))) False st of
          (Inl f, st1) \<Rightarrow>
            (case f of
               Raised (ExecutionError m) \<Rightarrow>
                 (Inr sarif_reports,
                  emit (Banner (display_header ''Convert to SARIF command failed'' m)) st1)
             | _ \<Rightarrow> (Inl f, st1))
        | (Inr _, st1) \<Rightarrow>
            (case (if upload_to_code_scanning running_config
                   then upload_sarif sys (github_token running_config)
                          (github_repository running_config) (github_sha running_config)
                          (github_ref running_config) (sarif_file output_directory report) st1
                   else (Inr (), st1)) of
               (Inl f, st2) \<Rightarrow> (Inl f, st2)
             | (Inr _, st2) \<Rightarrow>
                 if enforce running_config then
                   (case is_security_issues_found sys (sarif_file output_directory report)
                           (world st2) of
                      Inl f \<Rightarrow> (Inl f, st2)
                    | Inr (found, issues) \<Rightarrow>
                        if found then
                          (Inl (Exit 1),
                           emit (Banner (display_header ''Security issues found''
                                   (str_int issues @ '' issues found''))) st2)
                        else (Inr (sarif_reports @ [sarif_file output_directory report]), st2))
                 else (Inr (sarif_reports @ [sarif_file output_directory report]), st2))))"

fun convert_loop ::
  "'w sys \<Rightarrow> RunningConfiguration \<Rightarrow> string \<Rightarrow> string list \<Rightarrow> string list \<Rightarrow> 'w state
     \<Rightarrow> (failure + string list) \<times> 'w state"
where
  "convert_loop sys running_config output_directory [] sarif_reports st = (Inr sarif_reports, st)"
| "convert_loop sys running_config output_directory (report # rest) sarif_reports st =
     (case process_report sys running_config output_directory report sarif_reports st of
        (Inl f, st') \<Rightarrow> (Inl f, st')
      | (Inr sarif_reports', st') \<Rightarrow>
          convert_loop sys running_config output_directory rest sarif_reports' st')"

definition audit_cmd ::
  "RunningConfiguration \<Rightarrow> string \<Rightarrow> string \<Rightarrow> string \<Rightarrow> string option list" where
  "audit_cmd running_config base_dir binaries output_directory =
     [Some ''42ctl'', Some ''audit'', Some ''run'', Some ''local'',
      Some ''-b'', Some binaries,
      Some ''-i'', Some base_dir,
      Some ''-r'', Some output_directory,
      Some ''-c'',
      Some ''--github-user'', github_repository_owner running_config,
      Some ''--github-org'', github_organization running_config,
      Some ''--log-level'', Some (log_level running_config),
      Some ''--github-repo'', github_repository running_config] @
     (if data_enrich running_config then [Some ''--enrich''] else [])"

definition merge_cmd :: "string \<Rightarrow> string list \<Rightarrow> string list" where
  "merge_cmd out sarif_reports =
     [''42ctl'', ''audit'', ''report'', ''sarif'', ''merge'', ''-o'', out] @ sarif_reports"

text \<open>The merge after the loop, run only when an output path is configured.\<close>

definition merge_reports ::
  "'w sys \<Rightarrow> RunningConfiguration \<Rightarrow> string list \<Rightarrow> 'w state \<Rightarrow> (failure + unit) \<times> 'w state"
where
  "merge_reports sys running_config sarif_reports st =
     (case sarif_report running_config of
        None \<Rightarrow> (Inr (), st)
      | Some out \<Rightarrow>
          if out = [] then (Inr (), st)
          else
            (case execute sys (CmdList (map Some (merge_cmd out sarif_reports))) False st of
               (Inl f, st1) \<Rightarrow>
                 (case f of
                    Raised (ExecutionError m) \<Rightarrow>
                      (Inl (Exit 1),
                       emit (Banner (display_header ''Merge SARIF files command failed'' m)) st1)
                  | _ \<Rightarrow> (Inl f, st1))
             | (Inr _, st1) \<Rightarrow> (Inr (), st1)))"

text \<open>
  \<open>discovery_run\<close>. The debug line that prints the repository name evaluates
  \<open>github_repository.split('/')[1]\<close> whatever the log level is, before the audit starts.
  The output directory is listed twice, for the log and for the loop; listing reads the
  outside world and leaves it as it is, so one reading stands for both.
\<close>

definition discovery_run ::
  "'w sys \<Rightarrow> RunningConfiguration \<Rightarrow> string \<Rightarrow> string \<Rightarrow> 'w state \<Rightarrow> (failure + unit) \<times> 'w state"
where
  "discovery_run sys running_config base_dir binaries st =
     (let output_directory = path_join base_dir (uuid4_hex sys)
      in case github_repository running_config of
           None \<Rightarrow> (Inl (Raised AttributeError), st)
         | Some repo \<Rightarrow>
             if length (split_on CHR ''/'' repo) < 2 then (Inl (Raised IndexError), st)
             else
               (case execute sys
                       (CmdList (audit_cmd running_config base_dir binaries output_directory))
                       True st of
                  (Inl f, st1) \<Rightarrow>
                    (case f of
                       Raised (ExecutionError m) \<Rightarrow>
                         (Inl (Exit 1), emit (Banner (display_header ''Audit command failed'' m)) st1)
                     | _ \<Rightarrow> (Inl f, st1))
                | (Inr _, st1) \<Rightarrow>
                    (case listdir sys output_directory (world st1) of
                       None \<Rightarrow> (Inl (Raised FileNotFoundError), st1)
                     | Some results_files \<Rightarrow>
                         (case convert_loop sys running_config output_directory results_files []
                                 st1 of
                            (Inl f, st2) \<Rightarrow> (Inl f, st2)
                          | (Inr sarif_reports, st2) \<Rightarrow>
                              merge_reports sys running_config sarif_reports st2))))"

section \<open>Reading the trace\<close>

text \<open>The subprocesses of a trace, in order: each command with the exit code it gave.\<close>

fun spawns :: "event list \<Rightarrow> (string list \<times> int) list" where
  "spawns [] = []"
| "spawns (Spawn argv result # es) = (argv, returncode result) # spawns es"
| "spawns (HttpPost r # es) = spawns es"
| "spawns (Banner b # es) = spawns es"

section \<open>An example environment\<close>

text \<open>
  The decoder of the example is UTF-8 on the byte strings whose text has code points
  below 256 only: a byte below 128 stands for itself, and the lead bytes \<open>0xC2\<close> and
  \<open>0xC3\<close> with one continuation byte give the code points from 128 to 255. Every other
  byte string gets \<open>None\<close>: the ones that are not UTF-8, such as the single byte
  \<open>0xFF\<close>, and the ones whose text the model has no characters for.
\<close>

fun utf8_decode :: "bytes \<Rightarrow> string option" where
  "utf8_decode [] = Some []"
| "utf8_decode (b # bs) =
     (if (of_char b :: nat) < 128 then map_option ((#) b) (utf8_decode bs)
      else
        (case bs of
           [] \<Rightarrow> None
         | c # cs \<Rightarrow>
             if ((of_char b :: nat) = 194 \<or> (of_char b :: nat) = 195) \<and>
                128 \<le> (of_char c :: nat) \<and> (of_char c :: nat) < 192
             then map_option
                    ((#) (char_of (((of_char b :: nat) - 192) * 64 + ((of_char c :: nat) - 128))))
                    (utf8_decode cs)
             else None))"

text \<open>
  A small outside world to run the script in: the output directory holds the given files;
  converting the report of \<open>b.yaml\<close> fails with exit code 2 and \<open>boom\<close> on standard
  error, converting the report of \<open>u.yaml\<close> fails with exit code 2 and the byte \<open>0xFF\<close>
  on standard error, a command on the report of \<open>n.yaml\<close> succeeds with the byte
  \<open>0xFF\<close> on standard output, every other subprocess succeeds with \<open>ok\<close> on standard
  output; the diagnostics of \<open>a.yaml\<close> have no result and those of \<open>c.yaml\<close> have
  three; \<open>empty.sarif\<close> holds an empty object and \<open>broken.sarif\<close> is not JSON.
\<close>

definition ok :: completed where
  "ok = \<lparr>returncode = 0, stdout = ''ok'', stderr = []\<rparr>"

definition boom :: completed where
  "boom = \<lparr>returncode = 2, stdout = [], stderr = ''boom''\<rparr>"

definition garbled :: completed where
  "garbled = \<lparr>returncode = 2, stdout = [], stderr = [CHR 0xFF]\<rparr>"

definition noisy :: completed where
  "noisy = \<lparr>returncode = 0, stdout = [CHR 0xFF], stderr = []\<rparr>"

definition example_sys :: "string list \<Rightarrow> nat sys" where
  "example_sys files =
     \<lparr> subprocess_run =
         (\<lambda>argv w.
            if ''/w/run1/b.yaml.audit-report.json'' \<in> set argv then (Inr boom, Suc w)
            else if ''/w/run1/u.yaml.audit-report.json'' \<in> set argv then (Inr garbled, Suc w)
            else if ''/w/run1/n.yaml.audit-report.json'' \<in> set argv then (Inr noisy, Suc w)
            else (Inr ok, Suc w)),
       decode = utf8_decode,
       open_read =
         (\<lambda>p w. if p = ''a.yaml.audit-report.sarif'' then Some ''clean''
                 else if p = ''c.yaml.audit-report.sarif'' then Some ''three''
                 else if p = ''empty.sarif'' then Some ''{}''
                 else if p = ''broken.sarif'' then Some ''<html>''
                 else None),
       listdir = (\<lambda>p w. if p = ''/w/run1'' then Some files else None),
       urlopen = (\<lambda>r w. (Success [], Suc w)),
       json_load =
         (\<lambda>s. if s = ''clean''
                then Some (JObject [(''runs'', JArray [JObject [(''results'', JArray [])]])])
              else if s = ''three''
                then Some (JObject [(''runs'',
                       JArray [JObject [(''results'', JArray [JNull, JNull, JNull])]])])
              else if s = ''{}'' then Some (JObject [])
              else None),
       gzip_b64 = id,
       getcwd = ''/w'',
       abspath = (\<lambda>p. ''/w/'' @ p),
       uuid4_hex = ''run1'' \<rparr>"

definition start :: "nat state" where
  "start = \<lparr>events = [], world = 0\<rparr>"

definition example_config :: RunningConfiguration where
  "example_config =
     get_running_configuration
       [''GITHUB_REPOSITORY'' \<mapsto> ''owner/repo'',
        ''GITHUB_REPOSITORY_OWNER'' \<mapsto> ''owner'',
        ''INPUT_TOKEN'' \<mapsto> ''t0ken'',
        ''INPUT_SARIF-REPORT'' \<mapsto> ''all.sarif'']"

definition enforcing_config :: RunningConfiguration where
  "enforcing_config = example_config\<lparr>enforce := True\<rparr>"

text \<open>
  The states a run over the reports of \<open>a.yaml\<close>, \<open>b.yaml\<close> and \<open>c.yaml\<close> goes
  through: after the audit, after the first conversion, after the failed conversion of the
  second report, after the conversion of the third. The last one is the state after the
  failed conversion of the report of \<open>u.yaml\<close> in second place.
\<close>

definition after_audit :: "nat state" where
  "after_audit =
     \<lparr>events =
        [Spawn [''42ctl'', ''audit'', ''run'', ''local'', ''-b'', ''/bin/42c'', ''-i'', ''/w'',
                ''-r'', ''/w/run1'', ''-c'', ''--github-user'', ''owner'', ''--github-org'', ''owner'',
                ''--log-level'', ''info'', ''--github-repo'', ''owner/repo''] ok],
      world = 1\<rparr>"

definition after_a :: "nat state" where
  "after_a =
     \<lparr>events = events after_audit @
        [Spawn (convert_cmd ''/w/run1'' ''a.yaml.audit-report.json'') ok],
      world = 2\<rparr>"

definition after_b :: "nat state" where
  "after_b =
     \<lparr>events = events after_a @
        [Spawn (convert_cmd ''/w/run1'' ''b.yaml.audit-report.json'') boom,
         Banner (display_header ''Convert to SARIF command failed''
                   (join nl [''Command failed with exit code 2'', ''stderr: boom'']))],
      world = 3\<rparr>"

definition after_c :: "nat state" where
  "after_c =
     \<lparr>events = events after_b @ [Spawn (convert_cmd ''/w/run1'' ''c.yaml.audit-report.json'') ok],
      world = 4\<rparr>"

definition after_u :: "nat state" where
  "after_u =
     \<lparr>events = events after_a @
        [Spawn (convert_cmd ''/w/run1'' ''u.yaml.audit-report.json'') garbled],
      world = 3\<rparr>"

section \<open>Properties of the string primitives\<close>

lemma of_char_lower_char:
  "(of_char (lower_char c) :: nat) =
     (if (65 \<le> (of_char c :: nat) \<and> (of_char c :: nat) \<le> 90) \<or>
         (192 \<le> (of_char c :: nat) \<and> (of_char c :: nat) \<le> 222 \<and> (of_char c :: nat) \<noteq> 215)
      then of_char c + 32 else of_char c)"
proof (cases "(65 \<le> (of_char c :: nat) \<and> (of_char c :: nat) \<le> 90) \<or>
         (192 \<le> (of_char c :: nat) \<and> (of_char c :: nat) \<le> 222 \<and> (of_char c :: nat) \<noteq> 215)")
  case True
  then have "lower_char c = char_of (of_char c + 32 :: nat)"
    by (simp add: lower_char_def)
  moreover have "(of_char c + 32 :: nat) < 256"
    using True by auto
  then have "(of_char c + 32 :: nat) mod 256 = of_char c + 32"
    by simp
  ultimately have "(of_char (lower_char c) :: nat) = of_char c + 32"
    by simp
  with True show ?thesis by (simp only: if_True)
next
  case False
  then have "lower_char c = c" unfolding lower_char_def by (rule if_not_P)
  with False show ?thesis by (simp only: if_False)
qed

lemma char_eq_code: "c = d \<longleftrightarrow> (of_char c :: nat) = of_char d"
  by simp

lemma lower_char_t: "lower_char c = CHR ''t'' \<longleftrightarrow> c = CHR ''t'' \<or> c = CHR ''T''"
proof -
  have "(of_char (lower_char c) :: nat) = 116 \<longleftrightarrow> (of_char c :: nat) = 116 \<or> (of_char c :: nat) = 84"
    unfolding of_char_lower_char by auto
  moreover have "(of_char (CHR ''t'') :: nat) = 116" "(of_char (CHR ''T'') :: nat) = 84" by simp_all
  ultimately show ?thesis
    by (metis char_eq_code)
qed

lemma lower_char_r: "lower_char c = CHR ''r'' \<longleftrightarrow> c = CHR ''r'' \<or> c = CHR ''R''"
proof -
  have "(of_char (lower_char c) :: nat) = 114 \<longleftrightarrow> (of_char c :: nat) = 114 \<or> (of_char c :: nat) = 82"
    unfolding of_char_lower_char by auto
  moreover have "(of_char (CHR ''r'') :: nat) = 114" "(of_char (CHR ''R'') :: nat) = 82" by simp_all
  ultimately show ?thesis
    by (metis char_eq_code)
qed

lemma lower_char_u: "lower_char c = CHR ''u'' \<longleftrightarrow> c = CHR ''u'' \<or> c = CHR ''U''"
proof -
  have "(of_char (lower_char c) :: nat) = 117 \<longleftrightarrow> (of_char c :: nat) = 117 \<or> (of_char c :: nat) = 85"
    unfolding of_char_lower_char by auto
  moreover have "(of_char (CHR ''u'') :: nat) = 117" "(of_char (CHR ''U'') :: nat) = 85" by simp_all
  ultimately show ?thesis
    by (metis char_eq_code)
qed

lemma lower_char_e: "lower_char c = CHR ''e'' \<longleftrightarrow> c = CHR ''e'' \<or> c = CHR ''E''"
proof -
  have "(of_char (lower_char c) :: nat) = 101 \<longleftrightarrow> (of_char c :: nat) = 101 \<or> (of_char c :: nat) = 69"
    unfolding of_char_lower_char by auto
  moreover have "(of_char (CHR ''e'') :: nat) = 101" "(of_char (CHR ''E'') :: nat) = 69" by simp_all
  ultimately show ?thesis
    by (metis char_eq_code)
qed

lemma lower_true_iff: "lower v = ''true'' \<longleftrightarrow> spelled_true v"
proof -
  have "lower v = ''true'' \<longleftrightarrow>
     (\<exists>a b c d. v = [a, b, c, d] \<and> lower_char a = CHR ''t'' \<and> lower_char b = CHR ''r''
        \<and> lower_char c = CHR ''u'' \<and> lower_char d = CHR ''e'')"
    unfolding lower_def by (auto simp: map_eq_Cons_conv)
  also have "\<dots> \<longleftrightarrow> spelled_true v"
    unfolding spelled_true_def lower_char_t lower_char_r lower_char_u lower_char_e
    by blast
  finally show ?thesis .
qed

lemma to_bool_iff: "to_bool v \<longleftrightarrow> (case v of None \<Rightarrow> False | Some s \<Rightarrow> spelled_true s)"
  by (simp add: to_bool_def lower_true_iff split: option.splits)

lemma getenv_false: "to_bool (getenv env name (Some ''false'')) = to_bool (env name)"
proof (cases "env name")
  case None
  have "\<not> spelled_true ''false''" by (simp add: spelled_true_def)
  with None show ?thesis by (simp add: getenv_def to_bool_iff)
next
  case (Some v)
  then show ?thesis by (simp add: getenv_def)
qed

lemma post_init_fields:
  "enforce (post_init c) = enforce c"
  "data_enrich (post_init c) = data_enrich c"
  "upload_to_code_scanning (post_init c) = upload_to_code_scanning c"
  "sarif_report (post_init c) = sarif_report c"
  "export_as_pdf (post_init c) = export_as_pdf c"
  "github_token (post_init c) = github_token c"
  "github_repository (post_init c) = github_repository c"
  "github_organization (post_init c) = github_organization c"
  "github_repository_owner (post_init c) = github_repository_owner c"
  "github_ref (post_init c) = github_ref c"
  "github_sha (post_init c) = github_sha c"
  by (simp_all add: post_init_def)


lemma to_bool_getenv:
  "to_bool (getenv env name (Some ''false'')) =
     (case env name of None \<Rightarrow> False | Some v \<Rightarrow> spelled_true v)"
  unfolding getenv_false by (rule to_bool_iff)

lemma all_dropWhile: "(\<forall>x \<in> set (dropWhile P xs). P x) \<longleftrightarrow> (\<forall>x \<in> set xs. P x)"
  by (induction xs) auto

lemma strip_empty_iff: "strip s = [] \<longleftrightarrow> (\<forall>c \<in> set s. isspace c)"
  unfolding strip_def
  by (simp add: all_dropWhile)

lemma isspace_blank: "isspace CHR '' ''"
  by (simp add: isspace_def)

section \<open>The configuration loader\<close>

text \<open>
  Claim C8. Each of the three boolean inputs (enforce, data enrichment, upload) is true
  exactly when its environment variable is set to the word \<open>true\<close> in some mix of upper
  and lower case; any other value, and an unset variable, gives false.
\<close>

theorem boolean_inputs_only_true:
  "enforce (get_running_configuration env) =
     (case env ''INPUT_ENFORCE-SQG'' of None \<Rightarrow> False | Some v \<Rightarrow> spelled_true v) \<and>
   data_enrich (get_running_configuration env) =
     (case env ''INPUT_DATA-ENRICH'' of None \<Rightarrow> False | Some v \<Rightarrow> spelled_true v) \<and>
   upload_to_code_scanning (get_running_configuration env) =
     (case env ''INPUT_UPLOAD-TO-CODE-SCANNING'' of None \<Rightarrow> False | Some v \<Rightarrow> spelled_true v)"
  by (simp add: get_running_configuration_def Let_def post_init_fields to_bool_getenv)

theorem boolean_inputs_only_true_witness:
  "enforce (get_running_configuration
      [''INPUT_ENFORCE-SQG'' \<mapsto> ''TrUe'', ''INPUT_DATA-ENRICH'' \<mapsto> ''yes'']) \<and>
   \<not> data_enrich (get_running_configuration
      [''INPUT_ENFORCE-SQG'' \<mapsto> ''TrUe'', ''INPUT_DATA-ENRICH'' \<mapsto> ''yes'']) \<and>
   \<not> upload_to_code_scanning (get_running_configuration
      [''INPUT_ENFORCE-SQG'' \<mapsto> ''TrUe'', ''INPUT_DATA-ENRICH'' \<mapsto> ''yes''])"
  using boolean_inputs_only_true
    [of "[''INPUT_ENFORCE-SQG'' \<mapsto> ''TrUe'', ''INPUT_DATA-ENRICH'' \<mapsto> ''yes'']"]
  by (simp add: spelled_true_def)

lemma isspace_nbsp: "isspace (CHR 0xA0)"
  by (simp add: isspace_def)

lemma not_isspace_o: "\<not> isspace CHR ''o''"
  by (simp add: isspace_def)

lemma getenv_None: "getenv env name None = env name"
  by (simp add: getenv_def split: option.splits)

lemma none_or_empty_iff:
  "none_or_empty v =
     (case v of
        None \<Rightarrow> None
      | Some s \<Rightarrow> if (\<forall>c \<in> set s. isspace c) then None else Some s)"
  by (simp add: none_or_empty_def strip_empty_iff split: option.splits)

text \<open>
  Claim C5, as amended. An output report path or an export path that is empty or made of
  whitespace only resolves to an absent value, and any other value is kept. The access
  token, the repository, the organization, the owner, the ref and the commit SHA are taken
  from the environment as they are, so an empty or blank variable stays that string.
\<close>

theorem blank_path_inputs_are_absent:
  "sarif_report (get_running_configuration env) =
     (case env ''INPUT_SARIF-REPORT'' of
        None \<Rightarrow> None
      | Some v \<Rightarrow> if (\<forall>c \<in> set v. isspace c) then None else Some v) \<and>
   export_as_pdf (get_running_configuration env) =
     (case env ''INPUT_EXPORT-AS-PDF'' of
        None \<Rightarrow> None
      | Some v \<Rightarrow> if (\<forall>c \<in> set v. isspace c) then None else Some v) \<and>
   github_token (get_running_configuration env) = env ''INPUT_TOKEN'' \<and>
   github_repository (get_running_configuration env) = env ''GITHUB_REPOSITORY'' \<and>
   github_organization (get_running_configuration env) = env ''GITHUB_REPOSITORY_OWNER'' \<and>
   github_repository_owner (get_running_configuration env) = env ''GITHUB_REPOSITORY_OWNER'' \<and>
   github_ref (get_running_configuration env) = env ''GITHUB_REF'' \<and>
   github_sha (get_running_configuration env) = env ''GITHUB_SHA''"
  unfolding get_running_configuration_def Let_def post_init_fields
  by (simp add: getenv_None none_or_empty_iff)

theorem blank_path_inputs_are_absent_witness:
  "sarif_report (get_running_configuration
      [''INPUT_SARIF-REPORT'' \<mapsto> [CHR 0xA0, CHR '' ''], ''INPUT_EXPORT-AS-PDF'' \<mapsto> ''o'',
       ''INPUT_TOKEN'' \<mapsto> ''  '']) = None \<and>
   export_as_pdf (get_running_configuration
      [''INPUT_SARIF-REPORT'' \<mapsto> [CHR 0xA0, CHR '' ''], ''INPUT_EXPORT-AS-PDF'' \<mapsto> ''o'',
       ''INPUT_TOKEN'' \<mapsto> ''  '']) = Some ''o'' \<and>
   github_token (get_running_configuration
      [''INPUT_SARIF-REPORT'' \<mapsto> [CHR 0xA0, CHR '' ''], ''INPUT_EXPORT-AS-PDF'' \<mapsto> ''o'',
       ''INPUT_TOKEN'' \<mapsto> ''  '']) = Some ''  ''"
  using blank_path_inputs_are_absent
    [of "[''INPUT_SARIF-REPORT'' \<mapsto> [CHR 0xA0, CHR '' ''], ''INPUT_EXPORT-AS-PDF'' \<mapsto> ''o'',
          ''INPUT_TOKEN'' \<mapsto> ''  '']"]
  by (simp add: isspace_blank isspace_nbsp not_isspace_o)

text \<open>
  The claim as first stated fails for the access token: a blank \<open>INPUT_TOKEN\<close> is kept
  as a blank string.
\<close>

theorem blank_token_kept_counterexample:
  "strip ''  '' = [] \<and>
   github_token (get_running_configuration [''INPUT_TOKEN'' \<mapsto> ''  '']) = Some ''  ''"
  by (simp add: strip_def isspace_blank get_running_configuration_def Let_def post_init_fields
      getenv_def)

section \<open>Derived file names\<close>

lemma subst_all_absent: "\<not> sublist old s \<Longrightarrow> subst_all old new s = s"
proof (induction s)
  case Nil
  then show ?case by simp
next
  case (Cons c cs)
  then have "\<not> prefix old (c # cs)" "\<not> sublist old cs"
    by (simp_all add: sublist_Cons_right)
  with Cons.IH show ?case by simp
qed

lemma length_subst_all_le: "length (subst_all old [] s) \<le> length s"
proof (induction old "[] :: string" s rule: subst_all.induct)
  case (1 old)
  then show ?case by simp
next
  case (2 old c cs)
  show ?case
  proof (cases "old \<noteq> [] \<and> prefix old (c # cs)")
    case True
    with 2 have "length (subst_all old [] (drop (length old) (c # cs))) \<le> length (drop (length old) (c # cs))"
      by simp
    with True show ?thesis by simp
  next
    case False
    with 2 have "length (subst_all old [] cs) \<le> length cs" by simp
    with False show ?thesis by auto
  qed
qed

lemma length_subst_all_less:
  "old \<noteq> [] \<Longrightarrow> sublist old s \<Longrightarrow> length (subst_all old [] s) < length s"
proof (induction s)
  case Nil
  then show ?case by simp
next
  case (Cons c cs)
  show ?case
  proof (cases "prefix old (c # cs)")
    case True
    have "length (subst_all old [] (drop (length old) (c # cs))) \<le> length (drop (length old) (c # cs))"
      by (rule length_subst_all_le)
    moreover have "length (drop (length old) (c # cs)) < length (c # cs)"
      using Cons.prems(1) by (cases old) simp_all
    ultimately have "length (subst_all old [] (drop (length old) (c # cs))) < length (c # cs)"
      by (rule le_less_trans)
    moreover have "subst_all old [] (c # cs) = subst_all old [] (drop (length old) (c # cs))"
      using True Cons.prems(1) by simp
    ultimately show ?thesis by (simp only:)
  next
    case False
    then have "sublist old cs" using Cons.prems(2) by (simp add: sublist_Cons_right)
    then have "length (subst_all old [] cs) < length cs" using Cons by simp
    with False show ?thesis by simp
  qed
qed

lemma basename_path_join: "CHR ''/'' \<notin> set b \<Longrightarrow> basename (path_join a b) = b"
proof -
  assume nb: "CHR ''/'' \<notin> set b"
  then have np: "\<not> prefix ''/'' b" by (cases b) auto
  have tw: "takeWhile (\<lambda>c. c \<noteq> CHR ''/'') (rev b @ xs) = rev b @ takeWhile (\<lambda>c. c \<noteq> CHR ''/'') xs" for xs
    by (rule takeWhile_append2) (use nb in auto)
  have tw0: "takeWhile (\<lambda>c. c \<noteq> CHR ''/'') (rev b) = rev b"
    using nb by auto
  show ?thesis
  proof (cases "a = [] \<or> suffix ''/'' a")
    case True
    then show ?thesis
    proof
      assume "a = []" then show ?thesis using np by (simp add: path_join_def basename_def tw0)
    next
      assume "suffix ''/'' a"
      then obtain a' where "a = a' @ ''/''" by (auto simp: suffix_def)
      then show ?thesis using np by (simp add: path_join_def basename_def tw)
    qed
  next
    case False
    then show ?thesis using np by (simp add: path_join_def basename_def tw)
  qed
qed

lemma not_prefix_overlap:
  assumes nb: "\<forall>k \<in> set [1..<length pat]. drop k pat \<noteq> take (length pat - k) pat"
    and "base \<noteq> []" "\<not> sublist pat base"
  shows "\<not> prefix pat (base @ pat)"
proof
  assume "prefix pat (base @ pat)"
  then consider "prefix pat base" | us where "pat = base @ us" "prefix us pat"
    by (auto simp: prefix_append)
  then show False
  proof cases
    case 1
    then have "sublist pat base" by (rule prefix_imp_sublist)
    with assms(3) show False by simp
  next
    case 2
    define k where "k = length base"
    have k0: "0 < k" using assms(2) by (simp add: k_def)
    have us: "us = drop k pat" using 2(1) by (simp add: k_def)
    show False
    proof (cases "us = []")
      case True
      with 2(1) have "pat = base" by simp
      with assms(3) show False by simp
    next
      case False
      then have k1: "k < length pat" using 2(1) by (simp add: k_def)
      from 2(2) obtain ws where "pat = us @ ws" by (auto simp: prefix_def)
      then have "take (length us) pat = us" by (metis append_eq_conv_conj)
      moreover have "length us = length pat - k" using us by simp
      ultimately have "drop k pat = take (length pat - k) pat" using us by simp
      moreover have "k \<in> set [1..<length pat]" using k0 k1 by simp
      ultimately show False using nb by blast
    qed
  qed
qed

lemma subst_all_suffix:
  assumes nb: "\<forall>k \<in> set [1..<length pat]. drop k pat \<noteq> take (length pat - k) pat"
    and ne: "pat \<noteq> []"
  shows "\<not> sublist pat base \<Longrightarrow> subst_all pat [] (base @ pat) = base"
proof (induction base)
  case Nil
  have "subst_all pat [] pat = []"
    using ne by (cases pat) simp_all
  then show ?case by simp
next
  case (Cons c cs)
  have "\<not> prefix pat ((c # cs) @ pat)"
    using nb Cons.prems by (intro not_prefix_overlap) simp_all
  moreover have "\<not> sublist pat cs"
    using Cons.prems by (simp add: sublist_Cons_right)
  ultimately show ?case using Cons.IH by simp
qed

lemma no_border:
  "\<forall>k \<in> set [1..<length ''.audit-report.json''].
     drop k ''.audit-report.json'' \<noteq> take (length ''.audit-report.json'' - k) ''.audit-report.json''"
  by code_simp


lemma openapi_file_absent: "\<not> sublist ''.audit-report.json'' report \<Longrightarrow> openapi_file report = report"
  by (simp add: openapi_file_def replace_def subst_all_absent)

lemma openapi_file_present: "sublist ''.audit-report.json'' report \<Longrightarrow> openapi_file report \<noteq> report"
proof -
  assume "sublist ''.audit-report.json'' report"
  then have "length (subst_all ''.audit-report.json'' [] report) < length report"
    by (intro length_subst_all_less) simp_all
  then show ?thesis by (auto simp: openapi_file_def replace_def)
qed

lemma openapi_file_suffix:
  "\<not> sublist ''.audit-report.json'' base \<Longrightarrow> openapi_file (base @ ''.audit-report.json'') = base"
  using subst_all_suffix [OF no_border, of base] by (simp add: openapi_file_def replace_def)

lemma sarif_file_plain:
  "CHR ''/'' \<notin> set report \<Longrightarrow> sarif_file output_directory report = fst (splitext report) @ ''.sarif''"
  by (simp add: sarif_file_def report_path_def basename_path_join)

lemma petstore_splitext:
  "splitext ''petstore.yaml.audit-report.json'' = (''petstore.yaml.audit-report'', ''.json'')"
  by code_simp

lemma petstore_openapi: "openapi_file ''petstore.yaml.audit-report.json'' = ''petstore.yaml''"
  using openapi_file_suffix [of "''petstore.yaml''"] by code_simp

text \<open>
  Report names of the usual shape: a name that does not contain \<open>.audit-report.json\<close>
  is left as it is, and only such a name; a name that ends in it and does not contain it
  before loses just that ending.
\<close>

lemma regular_report_names:
  "(openapi_file report = report) = (\<not> sublist ''.audit-report.json'' report) \<and>
   (\<not> sublist ''.audit-report.json'' base \<longrightarrow> openapi_file (base @ ''.audit-report.json'') = base) \<and>
   (CHR ''/'' \<notin> set report \<longrightarrow>
      sarif_file output_directory report = fst (splitext report) @ ''.sarif'')"
  using openapi_file_absent openapi_file_present openapi_file_suffix sarif_file_plain by blast

text \<open>
  Claim C6. The report \<open>petstore.yaml.audit-report.json\<close> gives the specification file
  name \<open>petstore.yaml\<close> and the diagnostics file name
  \<open>petstore.yaml.audit-report.sarif\<close>, as claimed. The rest of the claim, that the ending
  \<open>.audit-report.json\<close> is stripped when the name has it and the name is left alone
  otherwise, fails on the code, which takes the text out wherever it stands: the report of
  a specification file \<open>x.audit-report.json\<close> gives \<open>x\<close>, not \<open>x.audit-report.json\<close>,
  and \<open>a.audit-report.json.txt\<close>, which does not end in the text, gives \<open>a.txt\<close>.
\<close>

theorem openapi_file_removes_inner_text:
  "openapi_file ''petstore.yaml.audit-report.json'' = ''petstore.yaml'' \<and>
   sarif_file ''/w/run1'' ''petstore.yaml.audit-report.json'' = ''petstore.yaml.audit-report.sarif'' \<and>
   suffix ''.audit-report.json'' ''x.audit-report.json.audit-report.json'' \<and>
   openapi_file ''x.audit-report.json.audit-report.json'' = ''x'' \<and>
   \<not> suffix ''.audit-report.json'' ''a.audit-report.json.txt'' \<and>
   openapi_file ''a.audit-report.json.txt'' = ''a.txt''"
  by code_simp

section \<open>The process runner reports failures\<close>

lemma sublist_prepend: "sublist p q \<Longrightarrow> sublist p (r @ q)"
  by (metis append_assoc sublist_def)

lemma sublist_join: "p \<in> set parts \<Longrightarrow> sublist p (join sep parts)"
proof (induction sep parts rule: join.induct)
  case (1 sep)
  then show ?case by simp
next
  case (2 sep x)
  then show ?case by simp
next
  case (3 sep x y ys)
  show ?case
  proof (cases "p = x")
    case True
    then show ?thesis by simp
  next
    case False
    with 3 have "sublist p (join sep (y # ys))" by simp
    then have "sublist p ((x @ sep) @ join sep (y # ys))" by (rule sublist_prepend)
    then show ?thesis by simp
  qed
qed

lemma sublist_tail: "sublist p (q @ p)"
  by simp

lemma failure_message_contains:
  assumes "failure_message sys result = Some message"
  shows "sublist (str_int (returncode result)) message \<and>
         (stdout result \<noteq> [] \<longrightarrow>
            (\<exists>text. decode sys (stdout result) = Some text \<and> sublist text message)) \<and>
         (stderr result \<noteq> [] \<longrightarrow>
            (\<exists>text. decode sys (stderr result) = Some text \<and> sublist text message))"
proof -
  from assms obtain out_lines err_lines where
    out: "(if stdout result \<noteq> []
           then map_option (\<lambda>text. [''stdout: '' @ text]) (decode sys (stdout result))
           else Some []) = Some out_lines"
    and err: "(if stderr result \<noteq> []
           then map_option (\<lambda>text. [''stderr: '' @ text]) (decode sys (stderr result))
           else Some []) = Some err_lines"
    and m: "message = join nl
              ([''Command failed with exit code '' @ str_int (returncode result)] @
               out_lines @ err_lines)"
    by (auto simp: failure_message_def split: option.splits)
  let ?parts = "[''Command failed with exit code '' @ str_int (returncode result)] @
               out_lines @ err_lines"
  have part: "sublist (q @ p) (join nl ?parts) \<Longrightarrow> sublist p message" for p q
    unfolding m using sublist_tail sublist_order.order_trans by blast
  have c1: "sublist (str_int (returncode result)) message"
    by (rule part [of "''Command failed with exit code ''"], rule sublist_join) simp
  have c2: "\<exists>text. decode sys (stdout result) = Some text \<and> sublist text message"
    if "stdout result \<noteq> []"
  proof -
    from that out obtain shown where t: "decode sys (stdout result) = Some shown"
      "out_lines = [''stdout: '' @ shown]"
      by auto
    have "sublist shown message"
      by (rule part [of "''stdout: ''"], rule sublist_join) (simp add: t)
    with t show ?thesis by blast
  qed
  have c3: "\<exists>text. decode sys (stderr result) = Some text \<and> sublist text message"
    if "stderr result \<noteq> []"
  proof -
    from that err obtain shown where t: "decode sys (stderr result) = Some shown"
      "err_lines = [''stderr: '' @ shown]"
      by auto
    have "sublist shown message"
      by (rule part [of "''stderr: ''"], rule sublist_join) (simp add: t)
    with t show ?thesis by blast
  qed
  from c1 c2 c3 show ?thesis by blast
qed

lemma failure_message_None:
  "failure_message sys result = None \<longleftrightarrow>
     (stdout result \<noteq> [] \<and> decode sys (stdout result) = None) \<or>
     (stderr result \<noteq> [] \<and> decode sys (stderr result) = None)"
  by (auto simp: failure_message_def split: option.splits)

text \<open>
  What \<open>execute\<close> does once the process has run. On a non-zero exit code it raises an
  \<open>ExecutionError\<close> whose message contains the exit code and the text of each captured
  stream, provided the streams it shows decode; when one does not, the
  \<open>UnicodeDecodeError\<close> of the decoding comes out instead. On exit code zero it returns,
  unless the output is asked for and does not decode.
\<close>

lemma execute_after_run:
  assumes "those (command_args command) = Some argv"
    and "subprocess_run sys argv (world st) = (Inr result, w')"
  shows "(returncode result \<noteq> 0 \<longrightarrow>
            (case failure_message sys result of
               None \<Rightarrow>
                 execute sys command capture_output st =
                   (Inl (Raised UnicodeDecodeError),
                    \<lparr>events = events st @ [Spawn argv result], world = w'\<rparr>)
             | Some message \<Rightarrow>
                 execute sys command capture_output st =
                   (Inl (Raised (ExecutionError message)),
                    \<lparr>events = events st @ [Spawn argv result], world = w'\<rparr>) \<and>
                 sublist (str_int (returncode result)) message \<and>
                 (stdout result \<noteq> [] \<longrightarrow>
                    (\<exists>text. decode sys (stdout result) = Some text \<and> sublist text message)) \<and>
                 (stderr result \<noteq> [] \<longrightarrow>
                    (\<exists>text. decode sys (stderr result) = Some text \<and> sublist text message)))) \<and>
         (returncode result = 0 \<and> \<not> capture_output \<longrightarrow>
            execute sys command capture_output st =
              (Inr None, \<lparr>events = events st @ [Spawn argv result], world = w'\<rparr>)) \<and>
         (returncode result = 0 \<and> capture_output \<longrightarrow>
            execute sys command capture_output st =
              (case decode sys (stdout result) of
                 None \<Rightarrow> Inl (Raised UnicodeDecodeError)
               | Some out \<Rightarrow>
                   (case decode sys (stderr result) of
                      None \<Rightarrow> Inl (Raised UnicodeDecodeError)
                    | Some err \<Rightarrow> Inr (Some (out, err))),
               \<lparr>events = events st @ [Spawn argv result], world = w'\<rparr>))"
  using assms failure_message_contains [of sys result]
  by (auto simp: execute_def Let_def split: option.splits)

text \<open>
  Claim C7. A subprocess that exits with code 2 and \<open>boom\<close> on standard error makes
  \<open>execute\<close> raise an \<open>ExecutionError\<close> whose message holds \<open>2\<close> and \<open>boom\<close>, as
  claimed. The claim fails on the code when the captured output is not UTF-8: with exit
  code 2 and the byte \<open>0xFF\<close> on standard error, decoding the stream for the message
  raises \<open>UnicodeDecodeError\<close> and no \<open>ExecutionError\<close> is raised; with exit code zero,
  the byte \<open>0xFF\<close> on standard output and the output asked for, \<open>execute\<close> raises
  \<open>UnicodeDecodeError\<close> too.
\<close>

theorem execute_undecodable_output:
  "execute (example_sys []) (CmdStr ''42ctl convert /w/run1/b.yaml.audit-report.json'') False start =
     (Inl (Raised (ExecutionError (''Command failed with exit code 2'' @ nl @ ''stderr: boom''))),
      \<lparr>events = [Spawn [''42ctl'', ''convert'', ''/w/run1/b.yaml.audit-report.json''] boom],
       world = 1\<rparr>) \<and>
   sublist ''2'' (''Command failed with exit code 2'' @ nl @ ''stderr: boom'') \<and>
   sublist ''boom'' (''Command failed with exit code 2'' @ nl @ ''stderr: boom'') \<and>
   execute (example_sys []) (CmdStr ''42ctl convert /w/run1/u.yaml.audit-report.json'') False start =
     (Inl (Raised UnicodeDecodeError),
      \<lparr>events = [Spawn [''42ctl'', ''convert'', ''/w/run1/u.yaml.audit-report.json''] garbled],
       world = 1\<rparr>) \<and>
   execute (example_sys []) (CmdStr ''42ctl lint /w/run1/n.yaml.audit-report.json'') True start =
     (Inl (Raised UnicodeDecodeError),
      \<lparr>events = [Spawn [''42ctl'', ''lint'', ''/w/run1/n.yaml.audit-report.json''] noisy],
       world = 1\<rparr>)"
  by code_simp

section \<open>The gate evaluator on a document\<close>

lemma results_len_first_run:
  "map_of doc ''runs'' = Some (JArray (JObject run # others)) \<Longrightarrow>
   results_len (JObject doc) =
     (case map_of run ''results'' of None \<Rightarrow> Inl KeyError | Some results \<Rightarrow> len results)"
  by (simp add: results_len_def getitem_key_def getitem_first_def split: option.splits)

lemma results_len_no_runs:
  "map_of doc ''runs'' = None \<Longrightarrow> results_len (JObject doc) = Inl KeyError"
  by (simp add: results_len_def getitem_key_def)

lemma results_len_empty_runs:
  "map_of doc ''runs'' = Some (JArray []) \<Longrightarrow> results_len (JObject doc) = Inl IndexError"
  by (simp add: results_len_def getitem_key_def getitem_first_def)

lemma is_security_issues_found_parsed:
  "open_read sys path w = Some content \<Longrightarrow> json_load sys content = Some data \<Longrightarrow>
   is_security_issues_found sys path w = issues_in_document data"
  by (simp add: is_security_issues_found_def)

text \<open>
  Claim C1. For a diagnostics file that parses to a JSON object: when the results list of
  the first run is not empty, the answer is "issues found" with the length of that list;
  when that list is empty, when the first run has no \<open>results\<close> key, when the list of
  runs is empty, and when the object has no \<open>runs\<close> key, the answer is "no issues" with
  the count \<open>-1\<close>. A missing key is never an error.
\<close>

theorem gate_counts_first_run:
  assumes "open_read sys path w = Some content"
    and "json_load sys content = Some (JObject doc)"
  shows "(map_of doc ''runs'' = Some (JArray (JObject run # others)) \<and>
          map_of run ''results'' = Some (JArray results) \<and> results \<noteq> [] \<longrightarrow>
            is_security_issues_found sys path w = Inr (True, int (length results))) \<and>
         (map_of doc ''runs'' = Some (JArray (JObject run # others)) \<and>
          map_of run ''results'' = Some (JArray []) \<longrightarrow>
            is_security_issues_found sys path w = Inr (False, - 1)) \<and>
         (map_of doc ''runs'' = Some (JArray (JObject run # others)) \<and>
          map_of run ''results'' = None \<longrightarrow>
            is_security_issues_found sys path w = Inr (False, - 1)) \<and>
         (map_of doc ''runs'' = Some (JArray []) \<longrightarrow>
            is_security_issues_found sys path w = Inr (False, - 1)) \<and>
         (map_of doc ''runs'' = None \<longrightarrow>
            is_security_issues_found sys path w = Inr (False, - 1))"
  unfolding is_security_issues_found_parsed [OF assms]
  by (simp add: issues_in_document_def results_len_first_run results_len_no_runs
      results_len_empty_runs len_def)

theorem gate_counts_first_run_witness:
  "is_security_issues_found (example_sys []) ''c.yaml.audit-report.sarif'' 0 = Inr (True, 3) \<and>
   is_security_issues_found (example_sys []) ''a.yaml.audit-report.sarif'' 0 = Inr (False, - 1) \<and>
   is_security_issues_found (example_sys []) ''empty.sarif'' 0 = Inr (False, - 1)"
proof -
  have c: "open_read (example_sys []) ''c.yaml.audit-report.sarif'' 0 = Some ''three''"
    "json_load (example_sys []) ''three'' =
       Some (JObject [(''runs'', JArray [JObject [(''results'', JArray [JNull, JNull, JNull])]])])"
    by (simp_all add: example_sys_def)
  have a: "open_read (example_sys []) ''a.yaml.audit-report.sarif'' 0 = Some ''clean''"
    "json_load (example_sys []) ''clean'' =
       Some (JObject [(''runs'', JArray [JObject [(''results'', JArray [])]])])"
    by (simp_all add: example_sys_def)
  have e: "open_read (example_sys []) ''empty.sarif'' 0 = Some ''{}''"
    "json_load (example_sys []) ''{}'' = Some (JObject [])"
    by (simp_all add: example_sys_def)
  show ?thesis
    using gate_counts_first_run [OF c, of "[(''results'', JArray [JNull, JNull, JNull])]" "[]" "[JNull, JNull, JNull]"]
      gate_counts_first_run [OF a, of "[(''results'', JArray [])]" "[]"]
      gate_counts_first_run [OF e]
    by simp
qed

text \<open>
  Claim C10. A path with no file behind it makes the gate evaluator raise
  \<open>FileNotFoundError\<close>, and a file that is not JSON makes it raise the JSON decode error;
  neither gives the "no issues" answer. That answer comes only from a file that exists and
  parses, when looking up the results raises \<open>KeyError\<close> or \<open>IndexError\<close> or when
  there is no result to count; any other error of the lookup is raised on.
\<close>

theorem gate_needs_parseable_file:
  "(open_read sys path w = None \<longrightarrow>
      is_security_issues_found sys path w = Inl (Raised FileNotFoundError)) \<and>
   (open_read sys path w = Some content \<and> json_load sys content = None \<longrightarrow>
      is_security_issues_found sys path w = Inl (Raised JSONDecodeError)) \<and>
   (open_read sys path w = Some content \<and> json_load sys content = Some data \<and>
    results_len data = Inl e \<and> e \<noteq> KeyError \<and> e \<noteq> IndexError \<longrightarrow>
      is_security_issues_found sys path w = Inl (Raised e)) \<and>
   (is_security_issues_found sys path w = Inr (False, - 1) \<longrightarrow>
      (\<exists>text data. open_read sys path w = Some text \<and> json_load sys text = Some data \<and>
         (results_len data = Inl KeyError \<or> results_len data = Inl IndexError \<or>
          (\<exists>n. results_len data = Inr n \<and> n \<le> 0))))"
  by (auto simp: is_security_issues_found_def issues_in_document_def
      split: option.splits sum.splits if_splits)

theorem gate_needs_parseable_file_witness:
  "is_security_issues_found (example_sys []) ''missing.sarif'' 0 = Inl (Raised FileNotFoundError) \<and>
   is_security_issues_found (example_sys []) ''broken.sarif'' 0 = Inl (Raised JSONDecodeError)"
proof -
  have m: "open_read (example_sys []) ''missing.sarif'' 0 = None"
    by (simp add: example_sys_def)
  have b: "open_read (example_sys []) ''broken.sarif'' 0 = Some ''<html>'' \<and>
           json_load (example_sys []) ''<html>'' = None"
    by (simp add: example_sys_def)
  show ?thesis
    using m b gate_needs_parseable_file [of "example_sys []" "''missing.sarif''" 0]
      gate_needs_parseable_file [of "example_sys []" "''broken.sarif''" 0 "''<html>''"]
    by simp
qed

section \<open>Repository identifier and access token\<close>

lemma split_on_no_sep: "sep \<notin> set s \<Longrightarrow> split_on sep s = [s]"
  by (induction s) auto

text \<open>
  Claim C4. An upload without an access token (absent or empty) ends the process with
  exit code 1, and so does an upload whose repository identifier has no \<open>/\<close> in it. In
  both cases the state after the call is the state before it with one banner logged: no
  request was sent.
\<close>

theorem upload_refuses_before_network:
  "(\<not> truthy token \<longrightarrow>
      (\<exists>b. upload_sarif sys token repository sha git_ref sarif_file_path st =
             (Inl (Exit 1), emit (Banner b) st))) \<and>
   (repository = Some repo \<and> CHR ''/'' \<notin> set repo \<longrightarrow>
      (\<exists>b. upload_sarif sys token repository sha git_ref sarif_file_path st =
             (Inl (Exit 1), emit (Banner b) st)))"
  by (auto simp: upload_sarif_def split: option.splits)

theorem upload_refuses_before_network_witness:
  "(\<exists>b. upload_sarif (example_sys []) None (Some ''owner/repo'') None None
           ''a.yaml.audit-report.sarif'' start = (Inl (Exit 1), emit (Banner b) start)) \<and>
   (\<exists>b. upload_sarif (example_sys []) (Some ''t0ken'') (Some ''myrepo'') None None
           ''a.yaml.audit-report.sarif'' start = (Inl (Exit 1), emit (Banner b) start)) \<and>
   events (emit (Banner []) start) = [Banner []] \<and> world (emit (Banner []) start) = 0"
proof -
  have t: "\<not> truthy None" by (simp add: truthy_def)
  have r: "Some ''myrepo'' = Some ''myrepo'' \<and> CHR ''/'' \<notin> set ''myrepo''" by simp
  show ?thesis
    using t r
      upload_refuses_before_network [of None "example_sys []" "Some ''owner/repo''" None None
        "''a.yaml.audit-report.sarif''" start "''myrepo''"]
      upload_refuses_before_network [of "Some ''t0ken''" "example_sys []" "Some ''myrepo''" None None
        "''a.yaml.audit-report.sarif''" start "''myrepo''"]
    by (simp add: emit_def start_def)
qed

text \<open>
  Claim C9. When the configured repository is absent, \<open>discovery_run\<close> raises
  \<open>AttributeError\<close>; when it has no \<open>/\<close> in it, \<open>discovery_run\<close> raises
  \<open>IndexError\<close>. Either way the state is untouched: no audit was started and no banner
  was logged.
\<close>

theorem discovery_run_needs_repository:
  "(github_repository running_config = None \<longrightarrow>
      discovery_run sys running_config base_dir binaries st = (Inl (Raised AttributeError), st)) \<and>
   (github_repository running_config = Some repo \<and> CHR ''/'' \<notin> set repo \<longrightarrow>
      discovery_run sys running_config base_dir binaries st = (Inl (Raised IndexError), st))"
  by (simp add: discovery_run_def Let_def split_on_no_sep)

theorem discovery_run_needs_repository_witness:
  "discovery_run (example_sys []) (example_config\<lparr>github_repository := None\<rparr>) ''/w'' ''/bin/42c'' start =
     (Inl (Raised AttributeError), start) \<and>
   discovery_run (example_sys []) (example_config\<lparr>github_repository := Some ''myrepo''\<rparr>) ''/w'' ''/bin/42c'' start =
     (Inl (Raised IndexError), start)"
  using discovery_run_needs_repository
      [of "example_config\<lparr>github_repository := None\<rparr>" "example_sys []" "''/w''" "''/bin/42c''" start]
    discovery_run_needs_repository
      [of "example_config\<lparr>github_repository := Some ''myrepo''\<rparr>" "example_sys []" "''/w''" "''/bin/42c''" start "''myrepo''"]
  by simp

section \<open>The audit driver: conversion failures, enforcement and the merge\<close>

lemma those_map_Some: "those (map Some xs) = Some xs"
  by (induction xs) simp_all

lemma spawns_append: "spawns (xs @ ys) = spawns xs @ spawns ys"
  by (induction xs rule: spawns.induct) simp_all

lemma execute_list:
  "subprocess_run sys argv (world st) = (Inr result, w') \<Longrightarrow>
   execute sys (CmdList (map Some argv)) capture_output st =
     (if returncode result \<noteq> 0 then
        (case failure_message sys result of
           None \<Rightarrow> Inl (Raised UnicodeDecodeError)
         | Some message \<Rightarrow> Inl (Raised (ExecutionError message)))
      else if capture_output then
        (case decode sys (stdout result) of
           None \<Rightarrow> Inl (Raised UnicodeDecodeError)
         | Some out \<Rightarrow>
             (case decode sys (stderr result) of
                None \<Rightarrow> Inl (Raised UnicodeDecodeError)
              | Some err \<Rightarrow> Inr (Some (out, err))))
      else Inr None,
      \<lparr>events = events st @ [Spawn argv result], world = w'\<rparr>)"
  by (simp add: execute_def command_args_def those_map_Some Let_def split: option.splits)

lemma execute_list_not_started:
  "subprocess_run sys argv (world st) = (Inl e, w') \<Longrightarrow>
   execute sys (CmdList (map Some argv)) capture_output st =
     (Inl (Raised (oserror_exn e)), \<lparr>events = events st, world = w'\<rparr>)"
  by (simp add: execute_def command_args_def those_map_Some Let_def)

lemma execute_returned:
  assumes "execute sys (CmdList (map Some argv)) capture_output st = (Inr x, st')"
  shows "\<exists>result w'. subprocess_run sys argv (world st) = (Inr result, w') \<and>
           returncode result = 0 \<and>
           st' = \<lparr>events = events st @ [Spawn argv result], world = w'\<rparr>"
proof (cases "subprocess_run sys argv (world st)")
  case (Pair r w')
  show ?thesis
  proof (cases r)
    case (Inl e)
    with Pair assms show ?thesis by (simp add: execute_list_not_started)
  next
    case (Inr result)
    with Pair assms show ?thesis
      by (auto simp: execute_list split: if_splits option.splits)
  qed
qed

lemma upload_sarif_spawns:
  "upload_sarif sys token repository sha git_ref path st = (r, st') \<Longrightarrow>
   spawns (events st') = spawns (events st)"
  by (auto simp: upload_sarif_def emit_def spawns_append Let_def
      split: if_splits option.splits prod.splits response.splits)

lemma process_report_skipped:
  "\<not> sublist ''audit-report'' report \<Longrightarrow>
   process_report sys running_config output_directory report sarif_reports st = (Inr sarif_reports, st)"
  by (simp add: process_report_def)

lemma process_report_failed:
  assumes "sublist ''audit-report'' report"
    and "subprocess_run sys (convert_cmd output_directory report) (world st) = (Inr result, w')"
    and "returncode result \<noteq> 0"
  shows "process_report sys running_config output_directory report sarif_reports st =
           (case failure_message sys result of
              None \<Rightarrow>
                (Inl (Raised UnicodeDecodeError),
                 \<lparr>events = events st @ [Spawn (convert_cmd output_directory report) result],
                  world = w'\<rparr>)
            | Some message \<Rightarrow>
                (Inr sarif_reports,
                 \<lparr>events = events st @
                    [Spawn (convert_cmd output_directory report) result,
                     Banner (display_header ''Convert to SARIF command failed'' message)],
                  world = w'\<rparr>))"
  using assms(1,3)
  by (simp add: process_report_def execute_list [OF assms(2)] emit_def split: option.splits)

lemma process_report_continues:
  assumes "sublist ''audit-report'' report"
    and "process_report sys running_config output_directory report sarif_reports st =
           (Inr sarif_reports', st')"
  shows "\<exists>code. spawns (events st') =
           spawns (events st) @ [(convert_cmd output_directory report, code)] \<and>
         sarif_reports' =
           sarif_reports @ (if code = 0 then [sarif_file output_directory report] else [])"
proof (cases "subprocess_run sys (convert_cmd output_directory report) (world st)")
  case (Pair r w')
  show ?thesis
  proof (cases r)
    case (Inl e)
    with Pair assms show ?thesis
      by (simp add: process_report_def execute_list_not_started oserror_exn_def
          split: oserror.splits)
  next
    case (Inr result)
    with Pair have run: "subprocess_run sys (convert_cmd output_directory report) (world st) =
                           (Inr result, w')"
      by simp
    show ?thesis
    proof (cases "returncode result = 0")
      case False
      with assms(2) process_report_failed [OF assms(1) run False, of running_config sarif_reports]
      have "spawns (events st') =
              spawns (events st) @ [(convert_cmd output_directory report, returncode result)] \<and>
            sarif_reports' = sarif_reports"
        by (auto simp: spawns_append split: option.splits)
      with False show ?thesis by (intro exI [of _ "returncode result"]) simp
    next
      case True
      define st1 where "st1 = \<lparr>events = events st @ [Spawn (convert_cmd output_directory report) result],
                                world = w'\<rparr>"
      have sp1: "spawns (events st1) =
                   spawns (events st) @ [(convert_cmd output_directory report, 0)]"
        using True by (simp add: st1_def spawns_append)
      obtain u st2 where u: "(if upload_to_code_scanning running_config
                       then upload_sarif sys (github_token running_config)
                              (github_repository running_config) (github_sha running_config)
                              (github_ref running_config) (sarif_file output_directory report) st1
                       else (Inr (), st1)) = (u, st2)"
        by (cases "(if upload_to_code_scanning running_config
                       then upload_sarif sys (github_token running_config)
                              (github_repository running_config) (github_sha running_config)
                              (github_ref running_config) (sarif_file output_directory report) st1
                       else (Inr (), st1))") auto
      then have sp2: "spawns (events st2) = spawns (events st1)"
        by (auto split: if_splits dest: upload_sarif_spawns)
      have "st' = st2 \<and> sarif_reports' = sarif_reports @ [sarif_file output_directory report]"
        using assms True u
        by (auto simp: process_report_def execute_list [OF run] st1_def [symmetric]
            split: if_splits sum.splits prod.splits)
      with sp1 sp2 show ?thesis by (intro exI [of _ 0]) simp
    qed
  qed
qed

lemma convert_loop_trace:
  "convert_loop sys running_config output_directory reports sarif_reports st = (Inr sarif_reports', st')
   \<Longrightarrow> \<exists>codes. length codes = length (filter (sublist ''audit-report'') reports) \<and>
         spawns (events st') =
           spawns (events st) @
             zip (map (convert_cmd output_directory) (filter (sublist ''audit-report'') reports)) codes \<and>
         sarif_reports' =
           sarif_reports @
             map (sarif_file output_directory \<circ> fst)
               (filter (\<lambda>p. snd p = 0) (zip (filter (sublist ''audit-report'') reports) codes))"
proof (induction reports arbitrary: sarif_reports st)
  case Nil
  then show ?case by simp
next
  case (Cons report rest)
  obtain r st1 where pr: "process_report sys running_config output_directory report sarif_reports st = (r, st1)"
    by (cases "process_report sys running_config output_directory report sarif_reports st") auto
  with Cons.prems obtain acc1 where r: "r = Inr acc1"
    and loop: "convert_loop sys running_config output_directory rest acc1 st1 = (Inr sarif_reports', st')"
    by (cases r) auto
  from Cons.IH [OF loop] obtain codes where
    codes: "length codes = length (filter (sublist ''audit-report'') rest)"
      "spawns (events st') =
           spawns (events st1) @
             zip (map (convert_cmd output_directory) (filter (sublist ''audit-report'') rest)) codes"
      "sarif_reports' =
           acc1 @
             map (sarif_file output_directory \<circ> fst)
               (filter (\<lambda>p. snd p = 0) (zip (filter (sublist ''audit-report'') rest) codes))"
    by blast
  show ?case
  proof (cases "sublist ''audit-report'' report")
    case False
    with pr r have "acc1 = sarif_reports" "st1 = st"
      by (simp_all add: process_report_skipped)
    with codes False show ?thesis by auto
  next
    case True
    from process_report_continues [OF True pr [unfolded r]] obtain code where
      step: "spawns (events st1) =
           spawns (events st) @ [(convert_cmd output_directory report, code)]"
      "acc1 = sarif_reports @ (if code = 0 then [sarif_file output_directory report] else [])"
      by blast
    show ?thesis
      by (rule exI [of _ "code # codes"]) (use True codes step in auto)
  qed
qed

lemma convert_loop_append:
  "convert_loop sys running_config output_directory (xs @ ys) sarif_reports st =
     (case convert_loop sys running_config output_directory xs sarif_reports st of
        (Inl f, st') \<Rightarrow> (Inl f, st')
      | (Inr sarif_reports', st') \<Rightarrow>
          convert_loop sys running_config output_directory ys sarif_reports' st')"
  by (induction xs arbitrary: sarif_reports st) (auto split: prod.splits sum.splits)

lemma split_on_not_Nil: "split_on sep s \<noteq> []"
  by (induction s) (auto split: list.splits)

lemma length_split_on: "sep \<in> set s \<Longrightarrow> 2 \<le> length (split_on sep s)"
proof (induction s)
  case Nil
  then show ?case by simp
next
  case (Cons c cs)
  show ?case
  proof (cases "c = sep")
    case True
    have "1 \<le> length (split_on sep cs)"
      using split_on_not_Nil [of sep cs] by (cases "split_on sep cs") simp_all
    with True show ?thesis by simp
  next
    case False
    with Cons have "2 \<le> length (split_on sep cs)" by simp
    with False show ?thesis by (cases "split_on sep cs") simp_all
  qed
qed

lemma discovery_run_after_audit:
  assumes "github_repository running_config = Some repo" "CHR ''/'' \<in> set repo"
    and "execute sys
           (CmdList (audit_cmd running_config base_dir binaries (path_join base_dir (uuid4_hex sys))))
           True st = (Inr out, st1)"
    and "listdir sys (path_join base_dir (uuid4_hex sys)) (world st1) = Some results_files"
  shows "discovery_run sys running_config base_dir binaries st =
           (case convert_loop sys running_config (path_join base_dir (uuid4_hex sys))
                   results_files [] st1 of
              (Inl f, st2) \<Rightarrow> (Inl f, st2)
            | (Inr sarif_reports, st2) \<Rightarrow> merge_reports sys running_config sarif_reports st2)"
proof -
  have "\<not> length (split_on CHR ''/'' repo) < 2"
    using length_split_on [OF assms(2)] by simp
  then show ?thesis
    using assms(1,3,4) by (simp add: discovery_run_def Let_def)
qed

lemma merge_reports_spawns:
  assumes "sarif_report running_config = Some out" "out \<noteq> []"
    and run: "subprocess_run sys (merge_cmd out sarif_reports) (world st) = (Inr result, w')"
  shows "spawns (events (snd (merge_reports sys running_config sarif_reports st))) =
           spawns (events st) @ [(merge_cmd out sarif_reports, returncode result)]"
  using assms(1,2)
  by (simp add: merge_reports_def execute_list [OF run] emit_def spawns_append
      split: option.splits)

text \<open>
  The loop and the merge when the output of the tools decodes. A report whose conversion
  fails with output that decodes is skipped: the loop goes on with the next report and the
  same list of diagnostics files, after logging a banner. Whenever the loop runs to its
  end, it has started one conversion for every report file, in order, whatever the exit
  codes were, and the merge that follows, when an output path is configured and the merge
  program starts, is the command \<open>42ctl audit report sarif merge -o\<close> with that path and
  exactly the diagnostics files of the conversions that exited with zero.
\<close>

lemma decodable_conversion_failure_is_skipped:
  "(sublist ''audit-report'' report \<and>
    subprocess_run sys (convert_cmd output_directory report) (world st) = (Inr result, w') \<and>
    returncode result \<noteq> 0 \<and> failure_message sys result = Some message \<longrightarrow>
      convert_loop sys running_config output_directory (report # rest) sarif_reports st =
        convert_loop sys running_config output_directory rest sarif_reports
          \<lparr>events = events st @
             [Spawn (convert_cmd output_directory report) result,
              Banner (display_header ''Convert to SARIF command failed'' message)],
           world = w'\<rparr>) \<and>
   (github_repository running_config = Some repo \<and> CHR ''/'' \<in> set repo \<and>
    execute sys
      (CmdList (audit_cmd running_config base_dir binaries (path_join base_dir (uuid4_hex sys))))
      True st = (Inr out, st1) \<and>
    listdir sys (path_join base_dir (uuid4_hex sys)) (world st1) = Some results_files \<and>
    convert_loop sys running_config (path_join base_dir (uuid4_hex sys)) results_files [] st1 =
      (Inr merged, st2) \<and>
    sarif_report running_config = Some target \<and> target \<noteq> [] \<and>
    subprocess_run sys (merge_cmd target merged) (world st2) = (Inr merge_result, w2) \<longrightarrow>
      (\<exists>codes.
         length codes = length (filter (sublist ''audit-report'') results_files) \<and>
         merged =
           map (sarif_file (path_join base_dir (uuid4_hex sys)) \<circ> fst)
             (filter (\<lambda>p. snd p = 0)
                (zip (filter (sublist ''audit-report'') results_files) codes)) \<and>
         spawns (events (snd (discovery_run sys running_config base_dir binaries st))) =
           spawns (events st1) @
           zip (map (convert_cmd (path_join base_dir (uuid4_hex sys)))
                  (filter (sublist ''audit-report'') results_files)) codes @
           [([''42ctl'', ''audit'', ''report'', ''sarif'', ''merge'', ''-o'', target] @ merged,
             returncode merge_result)]))"
proof (intro conjI impI)
  assume "sublist ''audit-report'' report \<and>
    subprocess_run sys (convert_cmd output_directory report) (world st) = (Inr result, w') \<and>
    returncode result \<noteq> 0 \<and> failure_message sys result = Some message"
  then show "convert_loop sys running_config output_directory (report # rest) sarif_reports st =
        convert_loop sys running_config output_directory rest sarif_reports
          \<lparr>events = events st @
             [Spawn (convert_cmd output_directory report) result,
              Banner (display_header ''Convert to SARIF command failed'' message)],
           world = w'\<rparr>"
    by (simp add: process_report_failed)
next
  let ?od = "path_join base_dir (uuid4_hex sys)"
  let ?rs = "filter (sublist ''audit-report'') results_files"
  assume h: "github_repository running_config = Some repo \<and> CHR ''/'' \<in> set repo \<and>
    execute sys (CmdList (audit_cmd running_config base_dir binaries ?od)) True st = (Inr out, st1) \<and>
    listdir sys ?od (world st1) = Some results_files \<and>
    convert_loop sys running_config ?od results_files [] st1 = (Inr merged, st2) \<and>
    sarif_report running_config = Some target \<and> target \<noteq> [] \<and>
    subprocess_run sys (merge_cmd target merged) (world st2) = (Inr merge_result, w2)"
  then have run: "discovery_run sys running_config base_dir binaries st =
                    merge_reports sys running_config merged st2"
    by (simp add: discovery_run_after_audit [of running_config repo sys base_dir binaries st out st1
          results_files])
  from h convert_loop_trace [of sys running_config ?od results_files "[]" st1 merged st2]
  obtain codes where codes: "length codes = length ?rs"
    "spawns (events st2) = spawns (events st1) @ zip (map (convert_cmd ?od) ?rs) codes"
    "merged = map (sarif_file ?od \<circ> fst) (filter (\<lambda>p. snd p = 0) (zip ?rs codes))"
    by auto
  from h have m: "subprocess_run sys (merge_cmd target merged) (world st2) = (Inr merge_result, w2)"
    by simp
  have "spawns (events (snd (discovery_run sys running_config base_dir binaries st))) =
          spawns (events st1) @ zip (map (convert_cmd ?od) ?rs) codes @
          [([''42ctl'', ''audit'', ''report'', ''sarif'', ''merge'', ''-o'', target] @ merged,
            returncode merge_result)]"
    using h merge_reports_spawns [OF _ _ m, of running_config] codes(2)
    by (simp add: run merge_cmd_def)
  with codes(1,3)
  show "\<exists>codes.
         length codes = length ?rs \<and>
         merged = map (sarif_file ?od \<circ> fst) (filter (\<lambda>p. snd p = 0) (zip ?rs codes)) \<and>
         spawns (events (snd (discovery_run sys running_config base_dir binaries st))) =
           spawns (events st1) @ zip (map (convert_cmd ?od) ?rs) codes @
           [([''42ctl'', ''audit'', ''report'', ''sarif'', ''merge'', ''-o'', target] @ merged,
             returncode merge_result)]"
    by blast
qed

text \<open>
  Claim C2. With three reports of which the second fails to convert with \<open>boom\<close> on
  standard error, the run converts the third and merges the first and the third
  diagnostics file, as claimed. The claim fails on the code when the output of the failed
  conversion is not UTF-8: with the byte \<open>0xFF\<close> on the standard error of the second
  conversion, building the message raises \<open>UnicodeDecodeError\<close>, which the handler for
  \<open>ExecutionError\<close> does not catch; the run ends there, the third report is never
  converted and nothing is merged.
\<close>

theorem undecodable_conversion_failure_is_fatal:
  "map fst (spawns (events (snd (discovery_run
      (example_sys [''a.yaml.audit-report.json'', ''b.yaml.audit-report.json'',
                    ''c.yaml.audit-report.json''])
      example_config ''/w'' ''/bin/42c'' start)))) =
     [[''42ctl'', ''audit'', ''run'', ''local'', ''-b'', ''/bin/42c'', ''-i'', ''/w'', ''-r'', ''/w/run1'',
       ''-c'', ''--github-user'', ''owner'', ''--github-org'', ''owner'', ''--log-level'', ''info'',
       ''--github-repo'', ''owner/repo''],
      [''42ctl'', ''audit'', ''report'', ''sarif'', ''convert'', ''-r'',
       ''/w/run1/a.yaml.audit-report.json'', ''-a'', ''a.yaml'', ''-o'', ''a.yaml.audit-report.sarif''],
      [''42ctl'', ''audit'', ''report'', ''sarif'', ''convert'', ''-r'',
       ''/w/run1/b.yaml.audit-report.json'', ''-a'', ''b.yaml'', ''-o'', ''b.yaml.audit-report.sarif''],
      [''42ctl'', ''audit'', ''report'', ''sarif'', ''convert'', ''-r'',
       ''/w/run1/c.yaml.audit-report.json'', ''-a'', ''c.yaml'', ''-o'', ''c.yaml.audit-report.sarif''],
      [''42ctl'', ''audit'', ''report'', ''sarif'', ''merge'', ''-o'', ''all.sarif'',
       ''a.yaml.audit-report.sarif'', ''c.yaml.audit-report.sarif'']] \<and>
   discovery_run
      (example_sys [''a.yaml.audit-report.json'', ''u.yaml.audit-report.json'',
                    ''c.yaml.audit-report.json''])
      example_config ''/w'' ''/bin/42c'' start =
     (Inl (Raised UnicodeDecodeError), after_u) \<and>
   map fst (spawns (events after_u)) =
     [[''42ctl'', ''audit'', ''run'', ''local'', ''-b'', ''/bin/42c'', ''-i'', ''/w'', ''-r'', ''/w/run1'',
       ''-c'', ''--github-user'', ''owner'', ''--github-org'', ''owner'', ''--log-level'', ''info'',
       ''--github-repo'', ''owner/repo''],
      [''42ctl'', ''audit'', ''report'', ''sarif'', ''convert'', ''-r'',
       ''/w/run1/a.yaml.audit-report.json'', ''-a'', ''a.yaml'', ''-o'', ''a.yaml.audit-report.sarif''],
      [''42ctl'', ''audit'', ''report'', ''sarif'', ''convert'', ''-r'',
       ''/w/run1/u.yaml.audit-report.json'', ''-a'', ''u.yaml'', ''-o'', ''u.yaml.audit-report.sarif'']]"
  by code_simp

text \<open>
  Claim C3. With enforcement on, let the loop have passed the earlier reports without
  ending the run, let the next report be converted (and uploaded, when upload is on), and
  let the gate find issues in its diagnostics file. Then the run ends with exit code 1 in
  the state reached at that point plus one banner, whatever reports come later: the
  conversion of this report is the last subprocess of the run, so no later report is
  converted or uploaded and nothing is merged.
\<close>

theorem enforcement_stops_at_first_finding:
  assumes "enforce running_config"
    and "github_repository running_config = Some repo" and "CHR ''/'' \<in> set repo"
    and "execute sys
           (CmdList (audit_cmd running_config base_dir binaries (path_join base_dir (uuid4_hex sys))))
           True st = (Inr out, st1)"
    and "listdir sys (path_join base_dir (uuid4_hex sys)) (world st1) = Some (earlier @ report # later)"
    and "convert_loop sys running_config (path_join base_dir (uuid4_hex sys)) earlier [] st1 =
           (Inr sarif_reports, st2)"
    and "sublist ''audit-report'' report"
    and "execute sys
           (CmdList (map Some (convert_cmd (path_join base_dir (uuid4_hex sys)) report)))
           False st2 = (Inr x, st3)"
    and "(if upload_to_code_scanning running_config
          then upload_sarif sys (github_token running_config) (github_repository running_config)
                 (github_sha running_config) (github_ref running_config)
                 (sarif_file (path_join base_dir (uuid4_hex sys)) report) st3
          else (Inr (), st3)) = (Inr (), st4)"
    and "is_security_issues_found sys (sarif_file (path_join base_dir (uuid4_hex sys)) report)
           (world st4) = Inr (True, issues)"
  shows "discovery_run sys running_config base_dir binaries st =
           (Inl (Exit 1),
            emit (Banner (display_header ''Security issues found''
                    (str_int issues @ '' issues found''))) st4) \<and>
         spawns (events (snd (discovery_run sys running_config base_dir binaries st))) =
           spawns (events st2) @ [(convert_cmd (path_join base_dir (uuid4_hex sys)) report, 0)]"
proof -
  let ?od = "path_join base_dir (uuid4_hex sys)"
  let ?final = "emit (Banner (display_header ''Security issues found''
                    (str_int issues @ '' issues found''))) st4"
  have step: "process_report sys running_config ?od report sarif_reports st2 = (Inl (Exit 1), ?final)"
    using assms(1,7,8,9,10) by (simp add: process_report_def)
  then have "convert_loop sys running_config ?od (report # later) sarif_reports st2 =
               (Inl (Exit 1), ?final)"
    by simp
  with assms(6) have "convert_loop sys running_config ?od (earlier @ report # later) [] st1 =
               (Inl (Exit 1), ?final)"
    by (simp add: convert_loop_append)
  then have run: "discovery_run sys running_config base_dir binaries st = (Inl (Exit 1), ?final)"
    using discovery_run_after_audit [OF assms(2,3,4,5)] by simp
  from execute_returned [OF assms(8)] obtain result w' where "returncode result = 0"
    and st3: "st3 = \<lparr>events = events st2 @ [Spawn (convert_cmd ?od report) result], world = w'\<rparr>"
    by blast
  moreover have "spawns (events st4) = spawns (events st3)"
    using assms(9) by (auto split: if_splits dest: upload_sarif_spawns)
  ultimately have "spawns (events ?final) = spawns (events st2) @ [(convert_cmd ?od report, 0)]"
    by (simp add: emit_def spawns_append)
  with run show ?thesis by simp
qed

theorem enforcement_stops_at_first_finding_witness:
  "discovery_run
     (example_sys [''a.yaml.audit-report.json'', ''b.yaml.audit-report.json'',
                   ''c.yaml.audit-report.json'', ''d.yaml.audit-report.json''])
     enforcing_config ''/w'' ''/bin/42c'' start =
     (Inl (Exit 1),
      emit (Banner (display_header ''Security issues found'' (str_int 3 @ '' issues found''))) after_c) \<and>
   spawns (events (snd (discovery_run
     (example_sys [''a.yaml.audit-report.json'', ''b.yaml.audit-report.json'',
                   ''c.yaml.audit-report.json'', ''d.yaml.audit-report.json''])
     enforcing_config ''/w'' ''/bin/42c'' start))) =
     spawns (events after_b) @
       [(convert_cmd (path_join ''/w'' (uuid4_hex (example_sys
           [''a.yaml.audit-report.json'', ''b.yaml.audit-report.json'',
            ''c.yaml.audit-report.json'', ''d.yaml.audit-report.json'']))) ''c.yaml.audit-report.json'', 0)]"
proof -
  let ?E = "example_sys [''a.yaml.audit-report.json'', ''b.yaml.audit-report.json'',
                   ''c.yaml.audit-report.json'', ''d.yaml.audit-report.json'']"
  let ?od = "path_join ''/w'' (uuid4_hex ?E)"
  have h1: "enforce enforcing_config" by code_simp
  have h2: "github_repository enforcing_config = Some ''owner/repo''" by code_simp
  have h3: "CHR ''/'' \<in> set ''owner/repo''" by simp
  have h4: "execute ?E (CmdList (audit_cmd enforcing_config ''/w'' ''/bin/42c'' ?od)) True start =
              (Inr (Some (''ok'', [])), after_audit)"
    by code_simp
  have h5: "listdir ?E ?od (world after_audit) =
              Some ([''a.yaml.audit-report.json'', ''b.yaml.audit-report.json''] @
                    ''c.yaml.audit-report.json'' # [''d.yaml.audit-report.json''])"
    by code_simp
  have h6: "convert_loop ?E enforcing_config ?od
              [''a.yaml.audit-report.json'', ''b.yaml.audit-report.json''] [] after_audit =
              (Inr [''a.yaml.audit-report.sarif''], after_b)"
    by code_simp
  have h7: "sublist ''audit-report'' ''c.yaml.audit-report.json''" by code_simp
  have h8: "execute ?E (CmdList (map Some (convert_cmd ?od ''c.yaml.audit-report.json''))) False after_b =
              (Inr None, after_c)"
    by code_simp
  have h9: "(if upload_to_code_scanning enforcing_config
          then upload_sarif ?E (github_token enforcing_config) (github_repository enforcing_config)
                 (github_sha enforcing_config) (github_ref enforcing_config)
                 (sarif_file ?od ''c.yaml.audit-report.json'') after_c
          else (Inr (), after_c)) = (Inr (), after_c)"
    by code_simp
  have h10: "is_security_issues_found ?E (sarif_file ?od ''c.yaml.audit-report.json'') (world after_c) =
               Inr (True, 3)"
    by code_simp
  show ?thesis
    by (rule enforcement_stops_at_first_finding [OF h1 h2 h3 h4 h5 h6 h7 h8 h9 h10])
qed


end
